theory Spec2Isabelle
  imports Main
begin

section \<open>Event-source bindings and their diff (lib/main.js, \<open>_updateEventSources\<close>)\<close>

text \<open>
  A desired event-source binding is an element of the \<open>EventSourceMappings\<close> array of the
  event source file. Every field of the JavaScript object may be missing; a missing
  field reads as \<open>undefined\<close>, which is \<open>None\<close> here. An existing binding is an element
  of the array that \<open>listEventSourceMappings\<close> returns; the platform gives each one its
  \<open>UUID\<close>. The leading underscore of the source's private names is dropped, since an
  Isabelle name cannot start with one.
\<close>

record event_source =
  EventSourceArn :: "string option"
  Enabled :: "bool option"
  BatchSize :: "int option"
  StartingPosition :: "string option"

record existing_event_source =
  ExistingArn :: "string option"
  UUID :: string

text \<open>
  The objects pushed on \<open>updateEventSourceList\<close> carry a \<open>type\<close> string, one of
  \<open>create\<close>, \<open>update\<close>, \<open>delete\<close>, and the fields of that kind of request:
  \<^item> create: FunctionName, EventSourceArn, Enabled, BatchSize, StartingPosition;
  \<^item> update: FunctionName, Enabled, BatchSize, UUID;
  \<^item> delete: UUID.
\<close>

datatype update_event_source =
    OpCreate string "string option" bool int string
  | OpUpdate string "bool option" "int option" string
  | OpDelete string

text \<open>JavaScript truthiness of the three optional fields, as the conditional
  expressions \<open>x ? x : default\<close> of the create branch test it.\<close>

definition enabled_or_false :: "bool option \<Rightarrow> bool" where
  "enabled_or_false v = (case v of Some True \<Rightarrow> True | _ \<Rightarrow> False)"

definition batch_size_or_100 :: "int option \<Rightarrow> int" where
  "batch_size_or_100 v = (case v of Some n \<Rightarrow> (if n = 0 then 100 else n) | None \<Rightarrow> 100)"

definition starting_position_or_latest :: "string option \<Rightarrow> string" where
  "starting_position_or_latest v =
     (case v of Some s \<Rightarrow> (if s = [] then ''LATEST'' else s) | None \<Rightarrow> ''LATEST'')"

text \<open>The inner loop of the first pass: the first existing binding whose
  \<open>EventSourceArn\<close> is \<open>===\<close> to the wanted one (the loop breaks there).\<close>

fun find_existing :: "existing_event_source list \<Rightarrow> string option \<Rightarrow> existing_event_source option" where
  "find_existing [] arn = None"
| "find_existing (e # es) arn = (if arn = ExistingArn e then Some e else find_existing es arn)"

text \<open>The body of the first loop, for one desired binding.\<close>

definition checking_new_and_update ::
  "string \<Rightarrow> existing_event_source list \<Rightarrow> event_source \<Rightarrow> update_event_source" where
  "checking_new_and_update functionName existingEventSourceList d =
     (case find_existing existingEventSourceList (EventSourceArn d) of
        Some e \<Rightarrow> OpUpdate functionName (Enabled d) (BatchSize d) (UUID e)
      | None \<Rightarrow> OpCreate functionName (EventSourceArn d)
                  (enabled_or_false (Enabled d))
                  (batch_size_or_100 (BatchSize d))
                  (starting_position_or_latest (StartingPosition d)))"

text \<open>The inner loop of the second pass: is some desired binding on this arn?\<close>

fun is_desired :: "event_source list \<Rightarrow> string option \<Rightarrow> bool" where
  "is_desired [] arn = False"
| "is_desired (d # ds) arn = (if EventSourceArn d = arn then True else is_desired ds arn)"

fun checking_delete :: "event_source list \<Rightarrow> existing_event_source list \<Rightarrow> update_event_source list" where
  "checking_delete eventSourceList [] = []"
| "checking_delete eventSourceList (e # es) =
     (if is_desired eventSourceList (ExistingArn e)
      then checking_delete eventSourceList es
      else OpDelete (UUID e) # checking_delete eventSourceList es)"

text \<open>The list \<open>updateEventSourceList\<close> as it stands after both loops.\<close>

definition updateEventSourceList ::
  "string \<Rightarrow> existing_event_source list \<Rightarrow> event_source list \<Rightarrow> update_event_source list" where
  "updateEventSourceList functionName existingEventSourceList eventSourceList =
     map (checking_new_and_update functionName existingEventSourceList) eventSourceList
     @ checking_delete eventSourceList existingEventSourceList"

fun is_create :: "update_event_source \<Rightarrow> bool" where
  "is_create (OpCreate _ _ _ _ _) = True"
| "is_create _ = False"

fun is_update :: "update_event_source \<Rightarrow> bool" where
  "is_update (OpUpdate _ _ _ _) = True"
| "is_update _ = False"

fun is_delete :: "update_event_source \<Rightarrow> bool" where
  "is_delete (OpDelete _) = True"
| "is_delete _ = False"

section \<open>The program options and the function parameters (\<open>_params\<close>)\<close>

text \<open>
  \<open>program\<close> is the object of command-line options. An option that was not given is
  \<open>undefined\<close> (\<open>None\<close>); the source tests most of them for truthiness, and the empty
  string is falsy too.
\<close>

record program =
  functionName :: string
  environment :: "string option"
  lambdaVersion :: "string option"
  handler :: string
  role :: string
  runtime :: string
  description :: string
  memorySize :: int
  timeout :: int
  publish :: bool
  vpcSubnets :: "string option"
  vpcSecurityGroups :: "string option"
  configFile :: "string option"
  deadLetterConfigTargetArn :: "string option"
  tracingConfig :: "string option"
  eventSourceFile :: "string option"
  region :: string
  eventFile :: string
  contextFile :: string

datatype error = Error string

definition truthy :: "string option \<Rightarrow> bool" where
  "truthy v = (case v of None \<Rightarrow> False | Some s \<Rightarrow> s \<noteq> [])"

text \<open>\<open>String.prototype.split\<close> with a one-character separator: the result is never
  empty, and splitting the empty string gives the list of one empty string.\<close>

fun split :: "char \<Rightarrow> string \<Rightarrow> string list" where
  "split c [] = [[]]"
| "split c (x # xs) =
     (if x = c then [] # split c xs
      else (case split c xs of w # ws \<Rightarrow> (x # w) # ws | [] \<Rightarrow> [[x]]))"

text \<open>The request of \<open>updateFunctionConfiguration\<close> has eleven of the fields of
  \<open>params\<close>; \<open>params\<close> adds \<open>Code.ZipFile\<close> and \<open>Publish\<close> to them.\<close>

record function_configuration =
  FunctionName :: string
  Description :: string
  Handler :: string
  MemorySize :: int
  Role :: string
  Timeout :: int
  Runtime :: string
  VpcConfig :: "string list \<times> string list"
  Environment :: "(string \<times> string) list option"
  DeadLetterConfig :: "string option"
  TracingConfig :: "string option"

record params = function_configuration +
  ZipFile :: string
  Publish :: bool

text \<open>\<open>replace(/[^a-zA-Z0-9-_]/g, '_')\<close>, character by character.\<close>

definition allowed_by_AWS_Lambda :: "char \<Rightarrow> bool" where
  "allowed_by_AWS_Lambda c \<longleftrightarrow>
     c \<in> set (''abcdefghijklmnopqrstuvwxyz'' @ ''ABCDEFGHIJKLMNOPQRSTUVWXYZ'' @ ''0123456789-_'')"

definition escape_function_name :: "string \<Rightarrow> string" where
  "escape_function_name s = map (\<lambda>c. if allowed_by_AWS_Lambda c then c else CHR ''_'') s"

text \<open>
  \<open>_params\<close>. \<open>dotenv_config f\<close> stands for \<open>dotenv.parse(fs.readFileSync(f))\<close>, which
  throws when the file cannot be read.
\<close>

definition params ::
  "(string \<Rightarrow> error + (string \<times> string) list) \<Rightarrow> program \<Rightarrow> string \<Rightarrow> error + params" where
  "params dotenv_config program buffer =
     (let name = functionName program
            @ (case environment program of Some e \<Rightarrow> (if e \<noteq> [] then ''-'' @ e else []) | None \<Rightarrow> [])
            @ (case lambdaVersion program of Some v \<Rightarrow> (if v \<noteq> [] then ''-'' @ v else []) | None \<Rightarrow> []);
          vpc = (case (vpcSubnets program, vpcSecurityGroups program) of
                   (Some sn, Some sg) \<Rightarrow>
                     (if sn \<noteq> [] \<and> sg \<noteq> [] then (split CHR '','' sn, split CHR '','' sg) else ([], []))
                 | _ \<Rightarrow> ([], []));
          tracing = (if truthy (tracingConfig program) then tracingConfig program else None);
          build = (\<lambda>env. \<lparr> FunctionName = escape_function_name name,
                     Description = description program,
                     Handler = handler program,
                     MemorySize = memorySize program,
                     Role = role program,
                     Timeout = timeout program,
                     Runtime = runtime program,
                     VpcConfig = vpc,
                     Environment = env,
                     DeadLetterConfig = deadLetterConfigTargetArn program,
                     TracingConfig = tracing,
                     ZipFile = buffer,
                     Publish = publish program \<rparr>)
      in case configFile program of
           None \<Rightarrow> Inr (build None)
         | Some f \<Rightarrow>
             (if f = [] then Inr (build None)
              else (case dotenv_config f of
                      Inl err \<Rightarrow> Inl err
                    | Inr config \<Rightarrow> Inr (build (Some config)))))"

section \<open>The desired-state loader (\<open>_eventSourceList\<close>)\<close>

text \<open>
  A schedule is a JavaScript object that lib/main.js only extends by \<open>FunctionArn\<close>: a
  list of keys with their values. \<open>assign\<close> is \<open>Object.assign\<close> with one key.
\<close>

type_synonym schedule = "(string \<times> string) list"

fun assign :: "schedule \<Rightarrow> string \<Rightarrow> string \<Rightarrow> schedule" where
  "assign [] k v = [(k, v)]"
| "assign ((k', v') # kvs) k v = (if k' = k then (k, v) # kvs else (k', v') # assign kvs k v)"

text \<open>
  What \<open>fs.readJsonSync\<close> gives for a well-formed event source file: an array of event
  sources, or an object whose two collections are each an array or else missing or
  falsy (\<open>None\<close>). The function returns an object whose two fields are each an array
  or \<open>null\<close> (\<open>None\<close>).
\<close>

datatype document =
    BareArray "event_source list"
  | Structured "event_source list option" "schedule list option"

record event_source_list =
  EventSourceMappings :: "event_source list option"
  ScheduleEvents :: "schedule list option"

definition eventSourceList ::
  "(string \<Rightarrow> error + document) \<Rightarrow> program \<Rightarrow> error + event_source_list" where
  "eventSourceList readJsonSync program =
     (case eventSourceFile program of
        None \<Rightarrow> Inr \<lparr> EventSourceMappings = None, ScheduleEvents = None \<rparr>
      | Some file \<Rightarrow>
          (if file = [] then Inr \<lparr> EventSourceMappings = None, ScheduleEvents = None \<rparr>
           else (case readJsonSync file of
                   Inl err \<Rightarrow> Inl err
                 | Inr (BareArray list) \<Rightarrow>
                     Inr \<lparr> EventSourceMappings = Some list, ScheduleEvents = Some [] \<rparr>
                 | Inr (Structured mappings schedules) \<Rightarrow>
                     Inr \<lparr> EventSourceMappings =
                             Some (case mappings of None \<Rightarrow> [] | Some m \<Rightarrow> m),
                           ScheduleEvents =
                             Some (case schedules of None \<Rightarrow> [] | Some s \<Rightarrow> s) \<rparr>)))"

section \<open>Platform calls and promises\<close>

text \<open>
  Every call of the platform client is asynchronous: it is issued at one moment and
  its callback runs later, with an error or with data. Time is a natural number. The
  platform is a parameter of the model: for each request it gives a \<open>reply\<close>, the
  latency of the call and its result (\<open>Inl\<close> the error passed to the callback).
\<close>

type_synonym 'a reply = "nat \<times> (error + 'a)"

datatype function_data = FunctionData (FunctionArn: string)

record list_data =
  ListedMappings :: "existing_event_source list option"

type_synonym mapping_data = string

record lambda_client =
  getFunction :: "string \<Rightarrow> unit reply"
  createFunction :: "params \<Rightarrow> function_data reply"
  updateFunctionCode :: "string \<Rightarrow> string \<Rightarrow> bool \<Rightarrow> unit reply"
  updateFunctionConfiguration :: "function_configuration \<Rightarrow> function_data reply"
  listEventSourceMappings :: "string \<Rightarrow> list_data option reply"
  createEventSourceMapping :: "update_event_source \<Rightarrow> mapping_data reply"
  updateEventSourceMapping :: "update_event_source \<Rightarrow> mapping_data reply"
  deleteEventSourceMapping :: "update_event_source \<Rightarrow> mapping_data reply"

text \<open>
  \<open>ScheduleEvents\<close> is required from lib/schedule_events.js; lib/main.js only calls
  its \<open>add\<close>, which upserts one schedule on the platform and returns a promise (the
  comment in \<open>_updateScheduleEvents\<close>: it "returns only {} if it succeeds"). Here
  \<open>add\<close> is a parameter, one asynchronous call with its reply.
\<close>

record schedule_events =
  add :: "schedule \<Rightarrow> unit reply"

text \<open>The calls that can be observed on the platform, for the log.\<close>

datatype call =
    GetFunction string
  | CreateFunction params
  | UpdateFunctionCode string string bool
  | UpdateFunctionConfiguration function_configuration
  | ListEventSourceMappings string
  | CreateEventSourceMapping update_event_source
  | UpdateEventSourceMapping update_event_source
  | DeleteEventSourceMapping update_event_source
  | ScheduleEventsAdd schedule

text \<open>
  A promise, with all that the model needs to know of it: the calls that the
  computation behind it issues (each with the time it is issued at), the time the
  promise settles at, and what it settles to (\<open>Inl\<close> a rejection, \<open>Inr\<close> a fulfilment).
  The platform's replies are fixed by the parameter, so the calls of the
  continuations are known too, and they are in the log with their later times.
\<close>

record 'a promise =
  calls :: "(nat \<times> call) list"
  settled :: nat
  outcome :: "error + 'a"

definition promise_resolve :: "nat \<Rightarrow> 'a \<Rightarrow> 'a promise" where
  "promise_resolve t v = \<lparr> calls = [], settled = t, outcome = Inr v \<rparr>"

definition promise_reject :: "nat \<Rightarrow> error \<Rightarrow> 'a promise" where
  "promise_reject t err = \<lparr> calls = [], settled = t, outcome = Inl err \<rparr>"

text \<open>\<open>new Promise((resolve, reject) => client.call(request, (err, data) => { if (err)
  return reject(err); resolve(data) }))\<close>: the executor runs at once, so the call is
  issued at \<open>t\<close>; the promise settles when the callback runs.\<close>

definition request :: "nat \<Rightarrow> call \<Rightarrow> 'a reply \<Rightarrow> 'a promise" where
  "request t c r = \<lparr> calls = [(t, c)], settled = t + fst r, outcome = snd r \<rparr>"

text \<open>\<open>p.then(f)\<close> with a function \<open>f\<close> that returns a promise: \<open>f\<close> runs when \<open>p\<close> is
  fulfilled, at that time; a rejection of \<open>p\<close> passes through and \<open>f\<close> never runs.\<close>

definition promise_then :: "'a promise \<Rightarrow> (nat \<Rightarrow> 'a \<Rightarrow> 'b promise) \<Rightarrow> 'b promise" where
  "promise_then p f =
     (case outcome p of
        Inl err \<Rightarrow> \<lparr> calls = calls p, settled = settled p, outcome = Inl err \<rparr>
      | Inr v \<Rightarrow> (let q = f (settled p) v
                 in \<lparr> calls = calls p @ calls q, settled = settled q, outcome = outcome q \<rparr>))"

text \<open>\<open>a.then(b)\<close> where \<open>b\<close> is not a function but a promise that exists already: the
  argument is ignored, the result settles as \<open>a\<close> does. The calls behind \<open>b\<close> were
  issued when \<open>b\<close> was made; they stay in the log.\<close>

definition promise_then_ignored :: "'a promise \<Rightarrow> 'b promise \<Rightarrow> 'a promise" where
  "promise_then_ignored a b = \<lparr> calls = calls a @ calls b, settled = settled a, outcome = outcome a \<rparr>"

text \<open>The result of a promise with another value in it (the model's types need it
  to put the two results of a region in one array).\<close>

definition promise_map :: "('a \<Rightarrow> 'b) \<Rightarrow> 'a promise \<Rightarrow> 'b promise" where
  "promise_map f p =
     \<lparr> calls = calls p, settled = settled p,
       outcome = (case outcome p of Inl err \<Rightarrow> Inl err | Inr v \<Rightarrow> Inr (f v)) \<rparr>"

text \<open>
  \<open>Promise.all\<close>, made at time \<open>t\<close>. Every promise of the array has been started, and
  nothing cancels one. If all are fulfilled, the result is fulfilled with the array
  of their values when the last one settles. Otherwise it is rejected with the error
  of the promise that is rejected first (at equal times, the one that comes first in
  the array), at that time.
\<close>

fun first_rejection :: "'a promise list \<Rightarrow> (nat \<times> error) option" where
  "first_rejection [] = None"
| "first_rejection (p # ps) =
     (case outcome p of
        Inr v \<Rightarrow> first_rejection ps
      | Inl err \<Rightarrow>
          (case first_rejection ps of
             None \<Rightarrow> Some (settled p, err)
           | Some (t', err') \<Rightarrow> if settled p \<le> t' then Some (settled p, err) else Some (t', err')))"

fun fulfilled_values :: "'a promise list \<Rightarrow> 'a list" where
  "fulfilled_values [] = []"
| "fulfilled_values (p # ps) =
     (case outcome p of Inr v \<Rightarrow> v # fulfilled_values ps | Inl err \<Rightarrow> fulfilled_values ps)"

definition promise_all :: "nat \<Rightarrow> 'a promise list \<Rightarrow> 'a list promise" where
  "promise_all t ps =
     (case first_rejection ps of
        None \<Rightarrow> \<lparr> calls = concat (map calls ps),
                  settled = fold max (map settled ps) t,
                  outcome = Inr (fulfilled_values ps) \<rparr>
      | Some (t', err) \<Rightarrow> \<lparr> calls = concat (map calls ps), settled = t', outcome = Inl err \<rparr>)"

section \<open>Updating the function (\<open>_uploadExisting\<close>, \<open>_uploadNew\<close>)\<close>

text \<open>The handlers of the \<open>retry\<close> event only print; they are left out.\<close>

definition uploadExisting :: "lambda_client \<Rightarrow> params \<Rightarrow> nat \<Rightarrow> function_data promise" where
  "uploadExisting lambda ps t =
     (let code = updateFunctionCode lambda (FunctionName ps) (ZipFile ps) (Publish ps);
          code_call = (t, UpdateFunctionCode (FunctionName ps) (ZipFile ps) (Publish ps));
          t1 = t + fst code
      in case snd code of
           Inl err \<Rightarrow> \<lparr> calls = [code_call], settled = t1, outcome = Inl err \<rparr>
         | Inr _ \<Rightarrow>
             (let conf = function_configuration.truncate ps;
                  r = updateFunctionConfiguration lambda conf
              in \<lparr> calls = [code_call, (t1, UpdateFunctionConfiguration conf)],
                   settled = t1 + fst r,
                   outcome = snd r \<rparr>))"

definition uploadNew :: "lambda_client \<Rightarrow> params \<Rightarrow> nat \<Rightarrow> function_data promise" where
  "uploadNew lambda ps t = request t (CreateFunction ps) (createFunction lambda ps)"

section \<open>Applying the binding operations (\<open>_updateEventSources\<close>, \<open>_updateScheduleEvents\<close>)\<close>

text \<open>\<open>_listEventSourceMappings\<close>: what its callback \<open>cb(err, eventSourceMappings)\<close>
  receives, and when.\<close>

definition listEventSourceMappings_cb ::
  "lambda_client \<Rightarrow> string \<Rightarrow> nat \<Rightarrow> nat \<times> (error + existing_event_source list)" where
  "listEventSourceMappings_cb lambda name t =
     (let r = listEventSourceMappings lambda name
      in (t + fst r,
          case snd r of
            Inl err \<Rightarrow> Inl err
          | Inr None \<Rightarrow> Inr []
          | Inr (Some data) \<Rightarrow>
              (case ListedMappings data of None \<Rightarrow> Inr [] | Some ms \<Rightarrow> Inr ms)))"

text \<open>The \<open>switch\<close> on the type of one operation; the promise of each case is made, and
  its call issued, while \<open>map\<close> runs.\<close>

fun apply_update_event_source ::
  "lambda_client \<Rightarrow> nat \<Rightarrow> update_event_source \<Rightarrow> mapping_data promise" where
  "apply_update_event_source lambda t (OpCreate f a e b s) =
     request t (CreateEventSourceMapping (OpCreate f a e b s))
       (createEventSourceMapping lambda (OpCreate f a e b s))"
| "apply_update_event_source lambda t (OpUpdate f e b u) =
     request t (UpdateEventSourceMapping (OpUpdate f e b u))
       (updateEventSourceMapping lambda (OpUpdate f e b u))"
| "apply_update_event_source lambda t (OpDelete u) =
     request t (DeleteEventSourceMapping (OpDelete u))
       (deleteEventSourceMapping lambda (OpDelete u))"

text \<open>The closing \<open>.then((data) => Promise.resolve(data)).catch((err) =>
  Promise.reject(err))\<close> changes nothing.\<close>

definition updateEventSources ::
  "lambda_client \<Rightarrow> string \<Rightarrow> existing_event_source list \<Rightarrow> event_source list option \<Rightarrow> nat
     \<Rightarrow> mapping_data list promise" where
  "updateEventSources lambda name existingEventSourceList desired t =
     (case desired of
        None \<Rightarrow> promise_resolve t []
      | Some sources \<Rightarrow>
          promise_all t
            (map (apply_update_event_source lambda t)
               (updateEventSourceList name existingEventSourceList sources)))"

text \<open>
  \<open>_updateScheduleEvents\<close>. The first \<open>map\<close> builds \<open>paramsList\<close>; the second calls
  \<open>scheduleEvents.add(params)\<close> on every element, in order, before anything else
  runs; \<open>reduce\<close> then chains \<open>a.then(b)\<close> over the promises that \<open>add\<close> returned, from
  \<open>Promise.resolve()\<close>.
\<close>

definition updateScheduleEvents ::
  "schedule_events \<Rightarrow> string \<Rightarrow> schedule list option \<Rightarrow> nat \<Rightarrow> schedule list promise" where
  "updateScheduleEvents scheduleEvents functionArn scheduleList t =
     (case scheduleList of
        None \<Rightarrow> promise_resolve t []
      | Some schedules \<Rightarrow>
          (let paramsList = map (\<lambda>schedule. assign schedule ''FunctionArn'' functionArn) schedules;
               added = map (\<lambda>ps. request t (ScheduleEventsAdd ps) (add scheduleEvents ps)) paramsList;
               series = foldl promise_then_ignored (promise_resolve t ()) added
           in promise_then series (\<lambda>t' _. promise_resolve t' paramsList)))"

text \<open>For the statements: the call that the \<open>switch\<close> issues for an operation, and the
  reply of the platform to it.\<close>

fun event_source_call :: "update_event_source \<Rightarrow> call" where
  "event_source_call (OpCreate f a e b s) = CreateEventSourceMapping (OpCreate f a e b s)"
| "event_source_call (OpUpdate f e b u) = UpdateEventSourceMapping (OpUpdate f e b u)"
| "event_source_call (OpDelete u) = DeleteEventSourceMapping (OpDelete u)"

fun event_source_reply :: "lambda_client \<Rightarrow> update_event_source \<Rightarrow> mapping_data reply" where
  "event_source_reply lambda (OpCreate f a e b s) = createEventSourceMapping lambda (OpCreate f a e b s)"
| "event_source_reply lambda (OpUpdate f e b u) = updateEventSourceMapping lambda (OpUpdate f e b u)"
| "event_source_reply lambda (OpDelete u) = deleteEventSourceMapping lambda (OpDelete u)"

section \<open>One region (\<open>_deployToRegion\<close>)\<close>

text \<open>
  The two arrays that a region resolves with, in the order of the \<open>Promise.all\<close> of the
  path taken. \<open>results_length\<close> is the \<open>length\<close> of such an array.
\<close>

datatype task_results =
    EventSourceResults "mapping_data list"
  | ScheduleResults "schedule list"

fun results_length :: "task_results \<Rightarrow> nat" where
  "results_length (EventSourceResults rs) = length rs"
| "results_length (ScheduleResults rs) = length rs"

text \<open>
  The lines on credentials, timeout and proxy configure the SDK and make no call.
  \<open>new aws.Lambda\<close> and \<open>new ScheduleEvents(aws)\<close> come after
  \<open>aws.config.update({region: region})\<close>: the clients are those of the region.
\<close>

record aws_sdk =
  NewLambda :: "string \<Rightarrow> lambda_client"
  NewScheduleEvents :: "string \<Rightarrow> schedule_events"

definition after_call :: "nat \<times> call \<Rightarrow> 'a promise \<Rightarrow> 'a promise" where
  "after_call c p = \<lparr> calls = c # calls p, settled = settled p, outcome = outcome p \<rparr>"

text \<open>The \<open>Promise.all\<close> of the create path, made when \<open>createFunction\<close> has given
  \<open>results\<close>: there is no existing binding.\<close>

definition create_path_bindings ::
  "lambda_client \<Rightarrow> schedule_events \<Rightarrow> string \<Rightarrow> event_source_list \<Rightarrow> nat \<Rightarrow> function_data
     \<Rightarrow> task_results list promise" where
  "create_path_bindings lambda scheduleEvents name sources t2 results =
     promise_all t2
       [promise_map EventSourceResults
          (updateEventSources lambda name [] (EventSourceMappings sources) t2),
        promise_map ScheduleResults
          (updateScheduleEvents scheduleEvents (FunctionArn results) (ScheduleEvents sources) t2)]"

text \<open>The \<open>Promise.all\<close> of the update path, made in the callback of
  \<open>_listEventSourceMappings\<close>: the elements of the array are evaluated in order, so
  \<open>_uploadExisting\<close> and \<open>_updateEventSources\<close> are both called at that time.\<close>

definition update_path_bindings ::
  "lambda_client \<Rightarrow> schedule_events \<Rightarrow> params \<Rightarrow> event_source_list \<Rightarrow> nat
     \<Rightarrow> existing_event_source list \<Rightarrow> task_results list promise" where
  "update_path_bindings lambda scheduleEvents ps sources t2 existingEventSourceList =
     promise_all t2
       [promise_map ScheduleResults
          (promise_then (uploadExisting lambda ps t2)
             (\<lambda>t3 results.
                updateScheduleEvents scheduleEvents (FunctionArn results)
                  (ScheduleEvents sources) t3)),
        promise_map EventSourceResults
          (updateEventSources lambda (FunctionName ps) existingEventSourceList
             (EventSourceMappings sources) t2)]"

text \<open>
  \<open>_eventSourceList\<close> runs before the promise is made, so its exception is thrown to
  the caller (\<open>Inl\<close>). Any error of \<open>getFunction\<close> is taken to mean that the function
  does not exist.
\<close>

definition deployToRegion ::
  "aws_sdk \<Rightarrow> (string \<Rightarrow> error + document) \<Rightarrow> program \<Rightarrow> params \<Rightarrow> string \<Rightarrow> nat
     \<Rightarrow> error + task_results list promise" where
  "deployToRegion aws readJsonSync prog ps rgn t =
     (case eventSourceList readJsonSync prog of
        Inl err \<Rightarrow> Inl err
      | Inr sources \<Rightarrow>
          Inr (let lambda = NewLambda aws rgn;
                   scheduleEvents = NewScheduleEvents aws rgn;
                   name = FunctionName ps;
                   probe = getFunction lambda name;
                   t1 = t + fst probe
               in after_call (t, GetFunction name)
                    (case snd probe of
                       Inl err \<Rightarrow>
                         promise_then (uploadNew lambda ps t1)
                           (\<lambda>t2 results.
                              create_path_bindings lambda scheduleEvents name sources t2 results)
                     | Inr _ \<Rightarrow>
                         after_call (t1, ListEventSourceMappings name)
                           (case listEventSourceMappings_cb lambda name t1 of
                              (t2, Inl err) \<Rightarrow> promise_reject t2 err
                            | (t2, Inr existingEventSourceList) \<Rightarrow>
                                update_path_bindings lambda scheduleEvents ps sources t2
                                  existingEventSourceList))))"

section \<open>All regions (\<open>deploy\<close>)\<close>

text \<open>
  What \<open>deploy\<close> leaves behind: the calls issued on the platform, and what reaches the
  console at the end: the results of all regions, nothing (when every array of every
  region is empty), the one error that \<open>catch\<close> prints, or an exception that nothing
  catches.
\<close>

datatype console =
    AllTasksDone "task_results list list"
  | Silent
  | LoggedError error
  | Thrown error

record deploy_run =
  issued :: "(string \<times> nat \<times> call) list"
  console :: console

text \<open>The calls behind the promises of the regions, each with the region of its client.\<close>

definition calls_by_region ::
  "string list \<Rightarrow> 'a promise list \<Rightarrow> (string \<times> nat \<times> call) list" where
  "calls_by_region regions started =
     concat (map (\<lambda>(rgn, p). map (Pair rgn) (calls p)) (zip regions started))"

text \<open>\<open>regions.map((region) => _this._deployToRegion(program, params, region))\<close>: the
  promises made, and the exception that stopped the \<open>map\<close>, if one did.\<close>

fun deploy_regions ::
  "aws_sdk \<Rightarrow> (string \<Rightarrow> error + document) \<Rightarrow> program \<Rightarrow> params \<Rightarrow> nat \<Rightarrow> string list
     \<Rightarrow> task_results list promise list \<times> error option" where
  "deploy_regions aws readJsonSync prog ps t [] = ([], None)"
| "deploy_regions aws readJsonSync prog ps t (rgn # regions) =
     (case deployToRegion aws readJsonSync prog ps rgn t of
        Inl err \<Rightarrow> ([], Some err)
      | Inr p \<Rightarrow>
          (case deploy_regions aws readJsonSync prog ps t regions of
             (started, thrown) \<Rightarrow> (p # started, thrown)))"

definition resultsIsEmpty :: "task_results list list \<Rightarrow> bool" where
  "resultsIsEmpty results \<longleftrightarrow>
     length (filter (\<lambda>result. length (filter (\<lambda>res. results_length res > 0) result) > 0) results) = 0"

text \<open>\<open>archive\<close> is what \<open>_archive\<close> passes to its callback, and \<open>t\<close> the time at which
  the callback runs.\<close>

definition deploy ::
  "aws_sdk \<Rightarrow> (string \<Rightarrow> error + document) \<Rightarrow> (string \<Rightarrow> error + (string \<times> string) list)
     \<Rightarrow> error + string \<Rightarrow> program \<Rightarrow> nat \<Rightarrow> deploy_run" where
  "deploy aws readJsonSync dotenv_config archive prog t =
     (let regions = split CHR '','' (region prog)
      in case archive of
           Inl err \<Rightarrow> \<lparr> issued = [], console = Thrown err \<rparr>
         | Inr buffer \<Rightarrow>
             (case params dotenv_config prog buffer of
                Inl err \<Rightarrow> \<lparr> issued = [], console = Thrown err \<rparr>
              | Inr ps \<Rightarrow>
                  (case deploy_regions aws readJsonSync prog ps t regions of
                     (started, Some err) \<Rightarrow>
                       \<lparr> issued = calls_by_region regions started, console = Thrown err \<rparr>
                   | (started, None) \<Rightarrow>
                       (let every = promise_all t started
                        in \<lparr> issued = calls_by_region regions started,
                             console =
                               (case outcome every of
                                  Inl err \<Rightarrow> LoggedError err
                                | Inr results \<Rightarrow>
                                    if resultsIsEmpty results then Silent
                                    else AllTasksDone results) \<rparr>))))"

section \<open>The local run (\<open>run\<close>)\<close>

text \<open>
  \<open>run\<close> as the list of its effects, in order. \<open>process.exit\<close> ends the process, so it is
  the last effect of a run that reaches it. The event is what \<open>require\<close> loads from
  the event file: one object, or an array of events; each is kept as its JSON text.
  \<open>WriteFileSync i\<close>, \<open>ExecSync i\<close> and \<open>UnlinkSync i\<close> are on the temporary event file of
  index \<open>i\<close>; \<open>ExecSync\<close> starts a process.
\<close>

datatype event_json = EventObject string | EventArray "string list"

datatype effect =
    ConsoleError string
  | ProcessExit nat
  | CreateSampleFile string string
  | SetRunTimeEnvironmentVars string
  | Require string
  | RunHandler "string option" string
  | WriteFileSync nat string
  | ExecSync nat
  | UnlinkSync nat

fun runMultipleHandlers :: "nat \<Rightarrow> string list \<Rightarrow> effect list" where
  "runMultipleHandlers i [] = []"
| "runMultipleHandlers i (event # events) =
     [WriteFileSync i event, ExecSync i, UnlinkSync i] @ runMultipleHandlers (Suc i) events"

definition run :: "event_json \<Rightarrow> program \<Rightarrow> effect list" where
  "run event prog =
     (if runtime prog \<notin> set [''nodejs4.3'', ''nodejs6.10'']
      then [ConsoleError (''Runtime ['' @ runtime prog @ ''] is not supported.''), ProcessExit 254]
      else
        (let splitHandler = split CHR ''.'' (handler prog);
             filename = (case splitHandler of [] \<Rightarrow> [] | f # _ \<Rightarrow> f) @ ''.js'';
             handlername = (case splitHandler of _ # h # _ \<Rightarrow> Some h | _ \<Rightarrow> None)
         in [CreateSampleFile (eventFile prog) ''event.json'']
            @ (case configFile prog of
                 None \<Rightarrow> []
               | Some f \<Rightarrow> (if f = [] then [] else [SetRunTimeEnvironmentVars f]))
            @ [Require filename, Require (eventFile prog), Require (contextFile prog)]
            @ (case event of
                 EventObject e \<Rightarrow> [RunHandler handlername e]
               | EventArray events \<Rightarrow> runMultipleHandlers 0 events)))"

section \<open>The archive (\<open>zip\<close>, \<open>_zip\<close>)\<close>

text \<open>
  \<open>zip\<close> is one object of the module, made when the module is loaded. Its state is the
  list of its entries, a name and a content each; \<open>zip.file(name, content)\<close> adds an
  entry or replaces the content of the entry of that name, and \<open>zip.generate\<close> gives
  the archive of the entries that the object holds at that moment.
\<close>

type_synonym zip = "(string \<times> string) list"

fun zip_file :: "string \<Rightarrow> string \<Rightarrow> zip \<Rightarrow> zip" where
  "zip_file name content [] = [(name, content)]"
| "zip_file name content ((n, c) # entries) =
     (if n = name then (name, content) # entries else (n, c) # zip_file name content entries)"

text \<open>\<open>String.prototype.replace\<close> with a string as pattern: the first occurrence only.\<close>

fun replace_first :: "string \<Rightarrow> string \<Rightarrow> string \<Rightarrow> string" where
  "replace_first pat rep [] = (if pat = [] then rep else [])"
| "replace_first pat rep (c # cs) =
     (if take (length pat) (c # cs) = pat then rep @ drop (length pat) (c # cs)
      else c # replace_first pat rep cs)"

text \<open>An item of \<open>fs.walk\<close>, with the content that \<open>fs.readFileSync\<close> reads at its path.\<close>

record walk_item =
  path :: string
  isDirectory :: bool
  content :: string

text \<open>\<open>filePath\<close>, the name of the entry of a file: \<open>codeDirectory\<close> comes from
  \<open>path.resolve\<close> and has no separator at its end, so \<open>path.join(codeDirectory,
  path.sep)\<close> appends one.\<close>

definition filePath :: "string \<Rightarrow> walk_item \<Rightarrow> string" where
  "filePath codeDirectory file = replace_first (codeDirectory @ ''/'') [] (path file)"

text \<open>The handler of \<open>data\<close>, for one item.\<close>

definition on_data :: "string \<Rightarrow> zip \<Rightarrow> walk_item \<Rightarrow> zip" where
  "on_data codeDirectory z file =
     (if \<not> isDirectory file
      then zip_file (filePath codeDirectory file) (content file) z
      else z)"

text \<open>\<open>_zip\<close>: the state of the module's \<open>zip\<close> before, the items of the walk; the state
  after, and the data passed to the callback.\<close>

definition zip_directory :: "zip \<Rightarrow> string \<Rightarrow> walk_item list \<Rightarrow> zip \<times> zip" where
  "zip_directory z codeDirectory walk =
     (let z' = foldl (on_data codeDirectory) z walk in (z', z'))"

text \<open>For the statements: the names that one walk adds to the archive.\<close>

definition added_names :: "string \<Rightarrow> walk_item list \<Rightarrow> string set" where
  "added_names dir walk =
     set (map (filePath dir) (filter (\<lambda>f. \<not> isDirectory f) walk))"

section \<open>Example inputs\<close>

text \<open>The desired and existing bindings of the scenario: desired \<open>A\<close> (enabled, batch
  size 10); existing \<open>A\<close> with handle \<open>u1\<close> and \<open>B\<close> with handle \<open>u2\<close>.\<close>

definition example_desired :: "event_source list" where
  "example_desired =
     [\<lparr> EventSourceArn = Some ''A'', Enabled = Some True, BatchSize = Some 10,
        StartingPosition = None \<rparr>]"

definition example_existing :: "existing_event_source list" where
  "example_existing =
     [\<lparr> ExistingArn = Some ''A'', UUID = ''u1'' \<rparr>, \<lparr> ExistingArn = Some ''B'', UUID = ''u2'' \<rparr>]"

text \<open>A desired binding with nothing but its arn.\<close>

definition bare_source :: "string \<Rightarrow> event_source" where
  "bare_source arn =
     \<lparr> EventSourceArn = Some arn, Enabled = None, BatchSize = None, StartingPosition = None \<rparr>"

text \<open>A platform on which the function exists and every call succeeds.\<close>

definition example_lambda :: lambda_client where
  "example_lambda =
     \<lparr> getFunction = (\<lambda>_. (1, Inr ())),
       createFunction = (\<lambda>_. (2, Inr (FunctionData ''arn:aws:lambda:function:f''))),
       updateFunctionCode = (\<lambda>_ _ _. (3, Inr ())),
       updateFunctionConfiguration = (\<lambda>_. (1, Inr (FunctionData ''arn:aws:lambda:function:f''))),
       listEventSourceMappings = (\<lambda>_. (1, Inr (Some \<lparr> ListedMappings = Some example_existing \<rparr>))),
       createEventSourceMapping = (\<lambda>_. (1, Inr ''created'')),
       updateEventSourceMapping = (\<lambda>_. (1, Inr ''updated'')),
       deleteEventSourceMapping = (\<lambda>_. (1, Inr ''deleted'')) \<rparr>"

definition example_schedule_events :: schedule_events where
  "example_schedule_events = \<lparr> add = (\<lambda>_. (5, Inr ())) \<rparr>"

definition example_aws :: aws_sdk where
  "example_aws =
     \<lparr> NewLambda = (\<lambda>_. example_lambda), NewScheduleEvents = (\<lambda>_. example_schedule_events) \<rparr>"

definition example_schedule :: "string \<Rightarrow> schedule" where
  "example_schedule name =
     [(''ScheduleName'', name), (''ScheduleState'', ''ENABLED''),
      (''ScheduleExpression'', ''rate(1 hour)'')]"

definition example_params :: params where
  "example_params =
     \<lparr> FunctionName = ''f'', Description = ''example'', Handler = ''index.handler'',
       MemorySize = 128, Role = ''arn:aws:iam::role'', Timeout = 3, Runtime = ''nodejs6.10'',
       VpcConfig = ([], []), Environment = None, DeadLetterConfig = None, TracingConfig = None,
       ZipFile = ''PK'', Publish = False \<rparr>"

definition example_program :: program where
  "example_program =
     \<lparr> functionName = ''f'', environment = None, lambdaVersion = None,
       handler = ''index.handler'', role = ''arn:aws:iam::role'', runtime = ''nodejs6.10'',
       description = ''example'', memorySize = 128, timeout = 3, publish = False,
       vpcSubnets = None, vpcSecurityGroups = None, configFile = None,
       deadLetterConfigTargetArn = None, tracingConfig = None,
       eventSourceFile = Some ''event_sources.json'', region = ''us-east-1,eu-west-1'',
       eventFile = ''event.json'', contextFile = ''context.json'' \<rparr>"

text \<open>A file system with one event source file: the desired binding \<open>A\<close> and no schedule.\<close>

definition example_readJsonSync :: "string \<Rightarrow> error + document" where
  "example_readJsonSync file =
     (if file = ''event_sources.json'' then Inr (Structured (Some example_desired) None)
      else Inl (Error ''ENOENT''))"

definition example_dotenv :: "string \<Rightarrow> error + (string \<times> string) list" where
  "example_dotenv file = Inl (Error ''ENOENT'')"

text \<open>Two builds in one process: the walk of the first has two files, the walk of the
  second has one.\<close>

definition first_walk :: "walk_item list" where
  "first_walk =
     [\<lparr> path = ''/w/.lambda'', isDirectory = True, content = [] \<rparr>,
      \<lparr> path = ''/w/.lambda/index.js'', isDirectory = False, content = ''one'' \<rparr>,
      \<lparr> path = ''/w/.lambda/secret.js'', isDirectory = False, content = ''key'' \<rparr>]"

definition second_walk :: "walk_item list" where
  "second_walk =
     [\<lparr> path = ''/w/.lambda'', isDirectory = True, content = [] \<rparr>,
      \<lparr> path = ''/w/.lambda/index.js'', isDirectory = False, content = ''two'' \<rparr>]"

section \<open>Properties of the diff\<close>

lemma find_existing_None: "find_existing E a = None \<longleftrightarrow> a \<notin> ExistingArn ` set E"
  by (induction E) auto

lemma find_existing_Some: "find_existing E a = Some e \<Longrightarrow> e \<in> set E \<and> ExistingArn e = a"
  by (induction E) (auto split: if_splits)

lemma find_existing_distinct:
  "distinct (map ExistingArn E) \<Longrightarrow> e \<in> set E \<Longrightarrow> find_existing E (ExistingArn e) = Some e"
  by (induction E) (auto simp: image_iff)

lemma is_desired_iff: "is_desired D a \<longleftrightarrow> a \<in> EventSourceArn ` set D"
  by (induction D) auto

lemma length_filter_keys:
  "distinct (map f xs) \<Longrightarrow> length (filter (\<lambda>x. f x \<in> S) xs) = card (f ` set xs \<inter> S)"
proof (induction xs)
  case Nil
  then show ?case by simp
next
  case (Cons x xs)
  then have fresh: "f x \<notin> f ` set xs"
    and IH: "length (filter (\<lambda>x. f x \<in> S) xs) = card (f ` set xs \<inter> S)"
    by auto
  show ?case
  proof (cases "f x \<in> S")
    case True
    then have "f ` set (x # xs) \<inter> S = insert (f x) (f ` set xs \<inter> S)" by auto
    moreover have "f x \<notin> f ` set xs \<inter> S" using fresh by simp
    ultimately show ?thesis using True IH by simp
  next
    case False
    then have "f ` set (x # xs) \<inter> S = f ` set xs \<inter> S" by auto
    then show ?thesis using False IH by simp
  qed
qed

lemma is_create_new:
  "is_create (checking_new_and_update fn E d) \<longleftrightarrow> EventSourceArn d \<notin> ExistingArn ` set E"
  using find_existing_None[of E "EventSourceArn d"]
  by (auto simp: checking_new_and_update_def split: option.splits)

lemma is_update_new:
  "is_update (checking_new_and_update fn E d) \<longleftrightarrow> EventSourceArn d \<in> ExistingArn ` set E"
  using find_existing_None[of E "EventSourceArn d"]
  by (auto simp: checking_new_and_update_def split: option.splits)

lemma is_delete_new: "\<not> is_delete (checking_new_and_update fn E d)"
  by (auto simp: checking_new_and_update_def split: option.splits)

lemma checking_delete_eq:
  "checking_delete D E =
     map (\<lambda>e. OpDelete (UUID e)) (filter (\<lambda>e. ExistingArn e \<notin> EventSourceArn ` set D) E)"
  by (induction E) (auto simp: is_desired_iff)

lemma count_creates:
  "length (filter is_create (updateEventSourceList fn E D)) =
     length (filter (\<lambda>d. EventSourceArn d \<in> - ExistingArn ` set E) D)"
  by (simp add: updateEventSourceList_def checking_delete_eq filter_map o_def is_create_new)

lemma count_updates:
  "length (filter is_update (updateEventSourceList fn E D)) =
     length (filter (\<lambda>d. EventSourceArn d \<in> ExistingArn ` set E) D)"
  by (simp add: updateEventSourceList_def checking_delete_eq filter_map o_def is_update_new)

lemma count_deletes:
  "length (filter is_delete (updateEventSourceList fn E D)) =
     length (filter (\<lambda>e. ExistingArn e \<in> - EventSourceArn ` set D) E)"
  by (simp add: updateEventSourceList_def checking_delete_eq filter_map o_def is_delete_new)

lemma update_member:
  assumes "distinct (map ExistingArn E)" "d \<in> set D" "e \<in> set E"
    "EventSourceArn d = ExistingArn e"
  shows "OpUpdate fn (Enabled d) (BatchSize d) (UUID e) \<in> set (updateEventSourceList fn E D)"
proof -
  have "checking_new_and_update fn E d = OpUpdate fn (Enabled d) (BatchSize d) (UUID e)"
    using assms find_existing_distinct[of E e] by (simp add: checking_new_and_update_def)
  then show ?thesis using assms(2) by (force simp: updateEventSourceList_def)
qed

lemma create_op:
  assumes "EventSourceArn d \<notin> ExistingArn ` set E"
  shows "checking_new_and_update fn E d =
           OpCreate fn (EventSourceArn d) (enabled_or_false (Enabled d))
             (batch_size_or_100 (BatchSize d)) (starting_position_or_latest (StartingPosition d))"
proof -
  have "find_existing E (EventSourceArn d) = None"
    using assms by (simp add: find_existing_None)
  then show ?thesis by (simp add: checking_new_and_update_def)
qed

lemma create_member:
  assumes "d \<in> set D" "EventSourceArn d \<notin> ExistingArn ` set E"
  shows "OpCreate fn (EventSourceArn d) (enabled_or_false (Enabled d))
           (batch_size_or_100 (BatchSize d)) (starting_position_or_latest (StartingPosition d))
         \<in> set (updateEventSourceList fn E D)"
  using assms(1) create_op[OF assms(2), of fn] by (force simp: updateEventSourceList_def)

lemma delete_member:
  assumes "e \<in> set E" "ExistingArn e \<notin> EventSourceArn ` set D"
  shows "OpDelete (UUID e) \<in> set (updateEventSourceList fn E D)"
  using assms by (auto simp: updateEventSourceList_def checking_delete_eq)

lemma length_ops:
  assumes D: "distinct (map EventSourceArn D)" and E: "distinct (map ExistingArn E)"
  shows "length (updateEventSourceList fn E D) =
           card (EventSourceArn ` set D \<union> ExistingArn ` set E)"
proof -
  let ?d = "EventSourceArn ` set D" and ?e = "ExistingArn ` set E"
  have "length (updateEventSourceList fn E D) =
          length D + length (filter (\<lambda>e. ExistingArn e \<in> - ?d) E)"
    by (simp add: updateEventSourceList_def checking_delete_eq)
  also have "\<dots> = card ?d + card (?e \<inter> - ?d)"
    using distinct_card[OF D] length_filter_keys[OF E, of "- ?d"] by simp
  also have "\<dots> = card (?d \<union> (?e \<inter> - ?d))"
    by (rule card_Un_disjoint[symmetric]) auto
  also have "?d \<union> (?e \<inter> - ?d) = ?d \<union> ?e" by auto
  finally show ?thesis .
qed

text \<open>
  C2. Let the desired bindings \<open>D\<close> and the existing bindings \<open>E\<close> each have one binding
  per sourceArn. Then the operation list has exactly \<open>|D \ E|\<close> creates, \<open>|D \<inter> E|\<close>
  updates and \<open>|E \ D|\<close> deletes, counted on sourceArns, and one operation per
  sourceArn of \<open>D \<union> E\<close> in all, so no binding is in two partitions. A sourceArn in
  both gets an update that carries the UUID of the existing binding; one in \<open>D\<close> only
  gets a create on that arn; one in \<open>E\<close> only gets a delete of its UUID.
\<close>

theorem diff_partition:
  assumes D: "distinct (map EventSourceArn D)" and E: "distinct (map ExistingArn E)"
  shows "(let ops = updateEventSourceList fn E D;
              desired = EventSourceArn ` set D;
              existing = ExistingArn ` set E
          in length (filter is_create ops) = card (desired - existing)
           \<and> length (filter is_update ops) = card (desired \<inter> existing)
           \<and> length (filter is_delete ops) = card (existing - desired)
           \<and> length ops = card (desired \<union> existing)
           \<and> (\<forall>d \<in> set D. \<forall>e \<in> set E. EventSourceArn d = ExistingArn e \<longrightarrow>
                 OpUpdate fn (Enabled d) (BatchSize d) (UUID e) \<in> set ops)
           \<and> (\<forall>d \<in> set D. EventSourceArn d \<notin> existing \<longrightarrow>
                 (\<exists>en b s. OpCreate fn (EventSourceArn d) en b s \<in> set ops))
           \<and> (\<forall>e \<in> set E. ExistingArn e \<notin> desired \<longrightarrow> OpDelete (UUID e) \<in> set ops))"
proof -
  let ?d = "EventSourceArn ` set D" and ?e = "ExistingArn ` set E"
  have c: "length (filter is_create (updateEventSourceList fn E D)) = card (?d - ?e)"
    using length_filter_keys[OF D, of "- ?e"] by (simp add: count_creates Diff_eq)
  have u: "length (filter is_update (updateEventSourceList fn E D)) = card (?d \<inter> ?e)"
    using length_filter_keys[OF D, of "?e"] by (simp add: count_updates)
  have d: "length (filter is_delete (updateEventSourceList fn E D)) = card (?e - ?d)"
    using length_filter_keys[OF E, of "- ?d"] by (simp add: count_deletes Diff_eq)
  show ?thesis
    unfolding Let_def
    using c u d length_ops[OF D E, of fn] update_member[OF E, of _ D _ fn]
      create_member[of _ D E fn] delete_member[of _ E D fn]
    by blast
qed

theorem diff_partition_witness:
  "distinct (map EventSourceArn example_desired) \<and> distinct (map ExistingArn example_existing)
   \<and> length (filter is_create (updateEventSourceList ''f'' example_existing example_desired)) = 0
   \<and> length (filter is_update (updateEventSourceList ''f'' example_existing example_desired)) = 1
   \<and> length (filter is_delete (updateEventSourceList ''f'' example_existing example_desired)) = 1
   \<and> OpUpdate ''f'' (Some True) (Some 10) ''u1''
        \<in> set (updateEventSourceList ''f'' example_existing example_desired)
   \<and> OpDelete ''u2'' \<in> set (updateEventSourceList ''f'' example_existing example_desired)"
proof -
  have D: "distinct (map EventSourceArn example_desired)"
    by (simp add: example_desired_def)
  have E: "distinct (map ExistingArn example_existing)"
    by (simp add: example_existing_def)
  have s1: "EventSourceArn ` set example_desired - ExistingArn ` set example_existing = {}"
    by (simp add: example_desired_def example_existing_def)
  have s2: "EventSourceArn ` set example_desired \<inter> ExistingArn ` set example_existing
              = {Some ''A''}"
    by (simp add: example_desired_def example_existing_def)
  have s3: "ExistingArn ` set example_existing - EventSourceArn ` set example_desired
              = {Some ''B''}"
    by (simp add: example_desired_def example_existing_def)
  have m1: "\<lparr> EventSourceArn = Some ''A'', Enabled = Some True, BatchSize = Some 10,
        StartingPosition = None \<rparr> \<in> set example_desired"
    by (simp add: example_desired_def)
  have m2: "\<lparr> ExistingArn = Some ''A'', UUID = ''u1'' \<rparr> \<in> set example_existing"
     "\<lparr> ExistingArn = Some ''B'', UUID = ''u2'' \<rparr> \<in> set example_existing"
    by (simp_all add: example_existing_def)
  have m3: "Some ''B'' \<notin> EventSourceArn ` set example_desired"
    by (simp add: example_desired_def)
  from diff_partition[OF D E, of "''f''"] show ?thesis
    unfolding Let_def s1 s2 s3 using D E m1 m2 m3 by fastforce
qed

section \<open>Defaults of the fields\<close>

lemma nth_desired_op:
  "i < length D \<Longrightarrow> updateEventSourceList fn E D ! i = checking_new_and_update fn E (D ! i)"
  by (simp add: updateEventSourceList_def nth_append)

text \<open>
  C8, as stated, fails: a desired binding that gives nothing but its arn, on an arn
  that exists on the platform, is applied as an update whose \<open>Enabled\<close> and \<open>BatchSize\<close>
  are undefined; no default is put in, and an update has no starting position.
\<close>

theorem defaults_counterexample:
  "updateEventSourceList ''f'' [\<lparr> ExistingArn = Some ''A'', UUID = ''u1'' \<rparr>] [bare_source ''A'']
     = [OpUpdate ''f'' None None ''u1'']"
  by (simp add: updateEventSourceList_def checking_new_and_update_def bare_source_def)

text \<open>
  C8, amended. The operation of the \<open>i\<close>-th desired binding is a create when no existing
  binding has its arn, and then a field left unspecified takes its default: \<open>Enabled\<close>
  false, \<open>BatchSize\<close> 100, \<open>StartingPosition\<close> LATEST (a batch size 0 and an empty starting
  position take the default too). When an existing binding has its arn, the
  operation is an update that carries \<open>Enabled\<close> and \<open>BatchSize\<close> as the desired binding
  has them, undefined when unspecified.
\<close>

theorem defaults_on_create:
  assumes "i < length D"
  shows "(let d = D ! i; op = updateEventSourceList fn E D ! i
          in (EventSourceArn d \<notin> ExistingArn ` set E \<longrightarrow>
                op = OpCreate fn (EventSourceArn d)
                       (case Enabled d of None \<Rightarrow> False | Some b \<Rightarrow> b)
                       (case BatchSize d of None \<Rightarrow> 100 | Some n \<Rightarrow> if n = 0 then 100 else n)
                       (case StartingPosition d of None \<Rightarrow> ''LATEST''
                        | Some s \<Rightarrow> if s = [] then ''LATEST'' else s))
           \<and> (EventSourceArn d \<in> ExistingArn ` set E \<longrightarrow>
                (\<exists>e \<in> set E. ExistingArn e = EventSourceArn d
                   \<and> op = OpUpdate fn (Enabled d) (BatchSize d) (UUID e))))"
proof -
  let ?d = "D ! i"
  have op: "updateEventSourceList fn E D ! i = checking_new_and_update fn E ?d"
    using assms by (rule nth_desired_op)
  have new: "EventSourceArn ?d \<notin> ExistingArn ` set E \<Longrightarrow>
      checking_new_and_update fn E ?d = OpCreate fn (EventSourceArn ?d)
                       (case Enabled ?d of None \<Rightarrow> False | Some b \<Rightarrow> b)
                       (case BatchSize ?d of None \<Rightarrow> 100 | Some n \<Rightarrow> if n = 0 then 100 else n)
                       (case StartingPosition ?d of None \<Rightarrow> ''LATEST''
                        | Some s \<Rightarrow> if s = [] then ''LATEST'' else s)"
    using create_op[of ?d E fn]
    by (auto simp: enabled_or_false_def batch_size_or_100_def starting_position_or_latest_def
          split: option.splits bool.splits)
  have old: "EventSourceArn ?d \<in> ExistingArn ` set E \<Longrightarrow>
      \<exists>e \<in> set E. ExistingArn e = EventSourceArn ?d
         \<and> checking_new_and_update fn E ?d = OpUpdate fn (Enabled ?d) (BatchSize ?d) (UUID e)"
  proof -
    assume "EventSourceArn ?d \<in> ExistingArn ` set E"
    then obtain e where e: "find_existing E (EventSourceArn ?d) = Some e"
      using find_existing_None[of E "EventSourceArn ?d"]
      by (cases "find_existing E (EventSourceArn ?d)") auto
    then have "e \<in> set E \<and> ExistingArn e = EventSourceArn ?d"
      by (rule find_existing_Some)
    moreover have "checking_new_and_update fn E ?d
                     = OpUpdate fn (Enabled ?d) (BatchSize ?d) (UUID e)"
      using e by (simp add: checking_new_and_update_def)
    ultimately show ?thesis by blast
  qed
  show ?thesis unfolding Let_def op using new old by blast
qed

theorem defaults_on_create_witness:
  "(0::nat) < length [bare_source ''C'']
   \<and> Some ''C'' \<notin> ExistingArn ` set example_existing
   \<and> updateEventSourceList ''f'' example_existing [bare_source ''C''] ! 0
       = OpCreate ''f'' (Some ''C'') False 100 ''LATEST''
   \<and> Some ''A'' \<in> ExistingArn ` set example_existing
   \<and> (\<exists>e \<in> set example_existing. ExistingArn e = Some ''A''
         \<and> updateEventSourceList ''f'' example_existing [bare_source ''A''] ! 0
             = OpUpdate ''f'' None None (UUID e))"
proof -
  have l: "(0::nat) < length [bare_source ''C'']" "(0::nat) < length [bare_source ''A'']"
    by simp_all
  have c: "Some ''C'' \<notin> ExistingArn ` set example_existing"
    and a: "Some ''A'' \<in> ExistingArn ` set example_existing"
    by (simp_all add: example_existing_def)
  show ?thesis
    using defaults_on_create[OF l(1), where E = example_existing and fn = "''f''"]
      defaults_on_create[OF l(2), where E = example_existing and fn = "''f''"] l c a
    by (simp add: Let_def bare_source_def)
qed

section \<open>The function update\<close>

text \<open>
  C10. In \<open>_uploadExisting\<close> the code update is issued first. If it fails, the promise
  rejects with its error and that call is the only one: no configuration update is
  made. If it succeeds, the configuration update is issued at the time the code
  update completes, and the promise settles as the configuration update does:
  rejected with its error, or resolved with its result.
\<close>

theorem uploadExisting_order:
  "(let code = updateFunctionCode lambda (FunctionName ps) (ZipFile ps) (Publish ps);
        conf = updateFunctionConfiguration lambda (function_configuration.truncate ps);
        code_call = (t, UpdateFunctionCode (FunctionName ps) (ZipFile ps) (Publish ps));
        p = uploadExisting lambda ps t
    in (\<forall>err. snd code = Inl err \<longrightarrow>
          outcome p = Inl err \<and> calls p = [code_call] \<and> settled p = t + fst code)
     \<and> (\<forall>u. snd code = Inr u \<longrightarrow>
          calls p = [code_call,
                     (t + fst code, UpdateFunctionConfiguration (function_configuration.truncate ps))]
          \<and> outcome p = snd conf \<and> settled p = t + fst code + fst conf))"
  by (simp add: uploadExisting_def Let_def)

theorem uploadExisting_order_witness:
  "snd (updateFunctionCode example_lambda ''f'' ''PK'' False) = Inr ()
   \<and> map fst (calls (uploadExisting example_lambda example_params 0)) = [0, 3]
   \<and> outcome (uploadExisting example_lambda example_params 0)
       = Inr (FunctionData ''arn:aws:lambda:function:f'')
   \<and> snd (updateFunctionCode
            (example_lambda\<lparr> updateFunctionCode := (\<lambda>_ _ _. (3, Inl (Error ''TooLarge''))) \<rparr>)
            ''f'' ''PK'' False) = Inl (Error ''TooLarge'')
   \<and> calls (uploadExisting
              (example_lambda\<lparr> updateFunctionCode := (\<lambda>_ _ _. (3, Inl (Error ''TooLarge''))) \<rparr>)
              example_params 0) = [(0, UpdateFunctionCode ''f'' ''PK'' False)]
   \<and> outcome (uploadExisting
              (example_lambda\<lparr> updateFunctionCode := (\<lambda>_ _ _. (3, Inl (Error ''TooLarge''))) \<rparr>)
              example_params 0) = Inl (Error ''TooLarge'')"
  using uploadExisting_order[of example_lambda example_params 0]
    uploadExisting_order[of "example_lambda\<lparr> updateFunctionCode := (\<lambda>_ _ _. (3, Inl (Error ''TooLarge''))) \<rparr>" example_params 0]
  by (simp add: Let_def example_lambda_def example_params_def function_configuration.truncate_def)

section \<open>The schedule upserts\<close>

lemma calls_foldl_ignored:
  "calls (foldl promise_then_ignored a bs) = calls a @ concat (map calls bs)"
  by (induction bs arbitrary: a) (simp_all add: promise_then_ignored_def)

lemma outcome_foldl_ignored: "outcome (foldl promise_then_ignored a bs) = outcome a"
  by (induction bs arbitrary: a) (simp_all add: promise_then_ignored_def)

lemma settled_foldl_ignored: "settled (foldl promise_then_ignored a bs) = settled a"
  by (induction bs arbitrary: a) (simp_all add: promise_then_ignored_def)

lemma updateScheduleEvents_eager:
  "updateScheduleEvents se arn (Some ss) t =
     \<lparr> calls = map (\<lambda>s. (t, ScheduleEventsAdd (assign s ''FunctionArn'' arn))) ss,
       settled = t,
       outcome = Inr (map (\<lambda>s. assign s ''FunctionArn'' arn) ss) \<rparr>"
  by (simp add: updateScheduleEvents_def Let_def promise_then_def calls_foldl_ignored
      outcome_foldl_ignored settled_foldl_ignored promise_resolve_def request_def o_def
      concat_map_singleton)

text \<open>
  C4 does not hold of the code. With two schedules and an \<open>add\<close> that takes 5 units of
  time, both upserts are issued at time 0: the second is started although the first
  completes only at time 5. The promise of \<open>_updateScheduleEvents\<close> is fulfilled at
  time 0 with the parameter list, and it is fulfilled with it even when every
  upsert fails.
\<close>

theorem schedule_upserts_all_started_at_once:
  "add example_schedule_events (assign (example_schedule ''first'') ''FunctionArn'' ''arn'') = (5, Inr ())
   \<and> calls (updateScheduleEvents example_schedule_events ''arn''
             (Some [example_schedule ''first'', example_schedule ''second'']) 0)
       = [(0, ScheduleEventsAdd (assign (example_schedule ''first'') ''FunctionArn'' ''arn'')),
          (0, ScheduleEventsAdd (assign (example_schedule ''second'') ''FunctionArn'' ''arn''))]
   \<and> settled (updateScheduleEvents example_schedule_events ''arn''
             (Some [example_schedule ''first'', example_schedule ''second'']) 0) = 0
   \<and> outcome (updateScheduleEvents \<lparr> add = (\<lambda>_. (5, Inl (Error ''AccessDenied''))) \<rparr> ''arn''
             (Some [example_schedule ''first'', example_schedule ''second'']) 0)
       = Inr [assign (example_schedule ''first'') ''FunctionArn'' ''arn'',
              assign (example_schedule ''second'') ''FunctionArn'' ''arn'']"
  by (simp add: updateScheduleEvents_eager example_schedule_events_def)

section \<open>The shared archive object\<close>

lemma names_zip_file: "fst ` set (zip_file name c z) = insert name (fst ` set z)"
  by (induction name c z rule: zip_file.induct) auto

lemma zip_file_keeps: "(n, c) \<in> set z \<Longrightarrow> n \<noteq> name \<Longrightarrow> (n, c) \<in> set (zip_file name c' z)"
  by (induction name c' z rule: zip_file.induct) auto

lemma zip_file_adds: "(name, c) \<in> set (zip_file name c z)"
  by (induction name c z rule: zip_file.induct) auto

lemma distinct_zip_file: "distinct (map fst z) \<Longrightarrow> distinct (map fst (zip_file name c z))"
proof (induction name c z rule: zip_file.induct)
  case (1 name content)
  then show ?case by simp
next
  case (2 name content n c entries)
  show ?case
  proof (cases "n = name")
    case True
    then show ?thesis using "2.prems" by simp
  next
    case False
    have "n \<notin> fst ` set (zip_file name content entries)"
      using False "2.prems" by (simp add: names_zip_file)
    then show ?thesis using False "2.IH" "2.prems" by simp
  qed
qed

lemma names_on_data:
  "fst ` set (on_data dir z f) =
     (if isDirectory f then fst ` set z else insert (filePath dir f) (fst ` set z))"
  by (simp add: on_data_def names_zip_file)

lemma distinct_on_data: "distinct (map fst z) \<Longrightarrow> distinct (map fst (on_data dir z f))"
  by (simp add: on_data_def distinct_zip_file)

lemma distinct_foldl:
  "distinct (map fst z) \<Longrightarrow> distinct (map fst (foldl (on_data dir) z walk))"
  by (induction walk arbitrary: z) (simp_all add: distinct_on_data)

lemma added_names_Cons:
  "added_names dir (f # walk)
     = (if isDirectory f then {} else {filePath dir f}) \<union> added_names dir walk"
  by (auto simp: added_names_def)

lemma names_foldl:
  "fst ` set (foldl (on_data dir) z walk) = fst ` set z \<union> added_names dir walk"
proof (induction walk arbitrary: z)
  case Nil
  then show ?case by (simp add: added_names_def)
next
  case (Cons f walk)
  then show ?case using Cons[of "on_data dir z f"]
    by (auto simp: names_on_data added_names_Cons)
qed

lemma entries_foldl_kept:
  "(n, c) \<in> set z \<Longrightarrow> n \<notin> added_names dir walk \<Longrightarrow> (n, c) \<in> set (foldl (on_data dir) z walk)"
proof (induction walk arbitrary: z)
  case Nil
  then show ?case by simp
next
  case (Cons f walk)
  have a: "n \<notin> added_names dir walk" using Cons.prems(2) by (auto simp: added_names_Cons)
  have "(n, c) \<in> set (on_data dir z f)"
    using Cons.prems by (auto simp: on_data_def added_names_Cons intro!: zip_file_keeps)
  then show ?case using Cons.IH[OF _ a] by simp
qed

lemma content_foldl:
  "i < length walk \<Longrightarrow> \<not> isDirectory (walk ! i)
     \<Longrightarrow> filePath dir (walk ! i) \<notin> added_names dir (drop (Suc i) walk)
     \<Longrightarrow> (filePath dir (walk ! i), content (walk ! i)) \<in> set (foldl (on_data dir) z walk)"
proof (induction walk arbitrary: z i)
  case Nil
  then show ?case by simp
next
  case (Cons f walk)
  show ?case
  proof (cases i)
    case 0
    have "(filePath dir f, content f) \<in> set (on_data dir z f)"
      using Cons.prems(2) 0 by (simp add: on_data_def zip_file_adds)
    moreover have "filePath dir f \<notin> added_names dir walk"
      using Cons.prems(3) 0 by simp
    ultimately show ?thesis using 0 by (simp add: entries_foldl_kept)
  next
    case (Suc k)
    then show ?thesis using Cons.prems Cons.IH[of k "on_data dir z f"] by simp
  qed
qed

lemma replace_first_prefix:
  assumes "pat \<noteq> []"
  shows "replace_first pat rep (pat @ rest) = rep @ rest"
proof -
  obtain c cs where eq: "pat @ rest = c # cs"
    using assms by (cases "pat @ rest") auto
  have "take (length pat) (c # cs) = pat" "drop (length pat) (c # cs) = rest"
    using eq[symmetric] by simp_all
  then have "replace_first pat rep (c # cs) = rep @ rest" by simp
  then show ?thesis by (simp add: eq)
qed

lemma filePath_relative: "path f = dir @ ''/'' @ rel \<Longrightarrow> filePath dir f = rel"
  using replace_first_prefix[of "dir @ ''/''" "[]" rel] by (simp add: filePath_def)

lemma archived_files:
  assumes "i < length walk" "\<not> isDirectory (walk ! i)" "path (walk ! i) = dir @ ''/'' @ rel"
  shows "rel \<in> fst ` set (foldl (on_data dir) z walk)"
    and "rel \<notin> added_names dir (drop (Suc i) walk)
           \<Longrightarrow> (rel, content (walk ! i)) \<in> set (foldl (on_data dir) z walk)"
proof -
  have n: "filePath dir (walk ! i) = rel" using assms(3) by (rule filePath_relative)
  have "walk ! i \<in> set (filter (\<lambda>f. \<not> isDirectory f) walk)"
    using assms(1,2) by simp
  then have "rel \<in> added_names dir walk"
    unfolding added_names_def using n by force
  then show "rel \<in> fst ` set (foldl (on_data dir) z walk)" by (simp add: names_foldl)
  show "rel \<notin> added_names dir (drop (Suc i) walk)
           \<Longrightarrow> (rel, content (walk ! i)) \<in> set (foldl (on_data dir) z walk)"
    using content_foldl[OF assms(1,2), of dir z] n by simp
qed

text \<open>
  C9. The state of the module's \<open>zip\<close> object after a build of \<open>_zip\<close> is the state
  before it with the files of the walk added, and the data generated is that whole
  state. So for two builds in a row in one process:
  \<^item> every file of a walk that is not a directory is in the archive of its build
    under its path relative to the code directory, and with its content (when the
    walk lists two files under one name, with the content of the later one);
  \<^item> the names in an archive are those that the object held before the build and
    those of the files of the walk, and no other (a directory is not archived);
    so the entries that the object held before a build are still in its archive,
    every name in the archive of the first build is in the archive of the second,
    and an entry of the first build whose name the second build does not add again
    is in the second archive with its content;
  \<^item> an archive has one entry per name, when the object had before the build.
\<close>

theorem zip_accumulates:
  "(let (z1, data1) = zip_directory z dir1 walk1;
        (z2, data2) = zip_directory z1 dir2 walk2
    in data1 = z1 \<and> data2 = z2
     \<and> (\<forall>i < length walk1. \<forall>rel.
           \<not> isDirectory (walk1 ! i) \<and> path (walk1 ! i) = dir1 @ ''/'' @ rel \<longrightarrow>
           rel \<in> fst ` set data1
           \<and> (rel \<notin> added_names dir1 (drop (Suc i) walk1) \<longrightarrow>
                (rel, content (walk1 ! i)) \<in> set data1))
     \<and> (\<forall>i < length walk2. \<forall>rel.
           \<not> isDirectory (walk2 ! i) \<and> path (walk2 ! i) = dir2 @ ''/'' @ rel \<longrightarrow>
           rel \<in> fst ` set data2
           \<and> (rel \<notin> added_names dir2 (drop (Suc i) walk2) \<longrightarrow>
                (rel, content (walk2 ! i)) \<in> set data2))
     \<and> fst ` set data1 = fst ` set z \<union> added_names dir1 walk1
     \<and> fst ` set data2 = fst ` set data1 \<union> added_names dir2 walk2
     \<and> fst ` set z \<subseteq> fst ` set data1
     \<and> fst ` set data1 \<subseteq> fst ` set data2
     \<and> (\<forall>(n, c) \<in> set data1. n \<notin> added_names dir2 walk2 \<longrightarrow> (n, c) \<in> set data2)
     \<and> (distinct (map fst z) \<longrightarrow> distinct (map fst data1) \<and> distinct (map fst data2)))"
proof -
  let ?z1 = "foldl (on_data dir1) z walk1"
  let ?z2 = "foldl (on_data dir2) ?z1 walk2"
  have a1: "\<forall>i < length walk1. \<forall>rel.
           \<not> isDirectory (walk1 ! i) \<and> path (walk1 ! i) = dir1 @ ''/'' @ rel \<longrightarrow>
           rel \<in> fst ` set ?z1
           \<and> (rel \<notin> added_names dir1 (drop (Suc i) walk1) \<longrightarrow>
                (rel, content (walk1 ! i)) \<in> set ?z1)"
    using archived_files[of _ walk1 dir1 _ z] by blast
  have a2: "\<forall>i < length walk2. \<forall>rel.
           \<not> isDirectory (walk2 ! i) \<and> path (walk2 ! i) = dir2 @ ''/'' @ rel \<longrightarrow>
           rel \<in> fst ` set ?z2
           \<and> (rel \<notin> added_names dir2 (drop (Suc i) walk2) \<longrightarrow>
                (rel, content (walk2 ! i)) \<in> set ?z2)"
    using archived_files[of _ walk2 dir2 _ ?z1] by blast
  have s: "fst ` set z \<subseteq> fst ` set ?z1" "fst ` set ?z1 \<subseteq> fst ` set ?z2"
    by (auto simp: names_foldl)
  have k: "\<forall>(n, c) \<in> set ?z1. n \<notin> added_names dir2 walk2 \<longrightarrow> (n, c) \<in> set ?z2"
    using entries_foldl_kept[of _ _ ?z1 dir2 walk2] by blast
  have d: "distinct (map fst z) \<longrightarrow> distinct (map fst ?z1) \<and> distinct (map fst ?z2)"
    by (simp add: distinct_foldl)
  have e: "fst ` set ?z1 = fst ` set z \<union> added_names dir1 walk1"
    "fst ` set ?z2 = fst ` set ?z1 \<union> added_names dir2 walk2"
    by (simp_all add: names_foldl)
  show ?thesis
    unfolding zip_directory_def Let_def prod.case
    by (intro conjI) (rule refl, rule refl, rule a1, rule a2, rule e(1), rule e(2),
        rule s(1), rule s(2), rule k, rule d)
qed

theorem zip_accumulates_witness:
  "(1::nat) < length second_walk \<and> \<not> isDirectory (second_walk ! 1)
   \<and> path (second_walk ! 1) = ''/w/.lambda'' @ ''/'' @ ''index.js''
   \<and> ''index.js'' \<notin> added_names ''/w/.lambda'' (drop (Suc 1) second_walk)
   \<and> ''secret.js'' \<notin> added_names ''/w/.lambda'' second_walk
   \<and> distinct (map fst ([] :: zip))
   \<and> (''index.js'', ''one'') \<in> set (snd (zip_directory [] ''/w/.lambda'' first_walk))
   \<and> (''secret.js'', ''key'') \<in> set (snd (zip_directory [] ''/w/.lambda'' first_walk))
   \<and> (''secret.js'', ''key'')
        \<in> set (snd (zip_directory (fst (zip_directory [] ''/w/.lambda'' first_walk))
                     ''/w/.lambda'' second_walk))
   \<and> (''index.js'', ''two'')
        \<in> set (snd (zip_directory (fst (zip_directory [] ''/w/.lambda'' first_walk))
                     ''/w/.lambda'' second_walk))
   \<and> (''index.js'', ''one'')
        \<notin> set (snd (zip_directory (fst (zip_directory [] ''/w/.lambda'' first_walk))
                     ''/w/.lambda'' second_walk))
   \<and> distinct (map fst (snd (zip_directory (fst (zip_directory [] ''/w/.lambda'' first_walk))
                     ''/w/.lambda'' second_walk)))"
proof -
  let ?data1 = "snd (zip_directory [] ''/w/.lambda'' first_walk)"
  let ?data2 = "snd (zip_directory (fst (zip_directory [] ''/w/.lambda'' first_walk))
                     ''/w/.lambda'' second_walk)"
  have h: "(1::nat) < length second_walk" "\<not> isDirectory (second_walk ! 1)"
    "path (second_walk ! 1) = ''/w/.lambda'' @ ''/'' @ ''index.js''"
    "content (second_walk ! 1) = ''two''"
    by (simp_all add: second_walk_def)
  have n: "''index.js'' \<notin> added_names ''/w/.lambda'' (drop (Suc 1) second_walk)"
    "''secret.js'' \<notin> added_names ''/w/.lambda'' second_walk"
    by (simp_all add: added_names_def second_walk_def filePath_def)
  have f: "(''index.js'', ''one'') \<in> set ?data1" "(''secret.js'', ''key'') \<in> set ?data1"
    by (simp_all add: zip_directory_def first_walk_def on_data_def filePath_def Let_def)
  note T = zip_accumulates[of "[]" "''/w/.lambda''" first_walk "''/w/.lambda''" second_walk]
  note T' = T[unfolded Let_def split_beta]
  have kept: "\<forall>(n, c) \<in> set ?data1.
      n \<notin> added_names ''/w/.lambda'' second_walk \<longrightarrow> (n, c) \<in> set ?data2"
    using T'[THEN conjunct2, THEN conjunct2, THEN conjunct2, THEN conjunct2, THEN conjunct2, THEN conjunct2, THEN conjunct2, THEN conjunct2, THEN conjunct1] by (simp add: split_beta)
  have added: "\<forall>i < length second_walk. \<forall>rel.
      \<not> isDirectory (second_walk ! i) \<and> path (second_walk ! i) = ''/w/.lambda'' @ ''/'' @ rel \<longrightarrow>
      rel \<in> fst ` set ?data2
      \<and> (rel \<notin> added_names ''/w/.lambda'' (drop (Suc i) second_walk) \<longrightarrow>
           (rel, content (second_walk ! i)) \<in> set ?data2)"
    by (rule T'[THEN conjunct2, THEN conjunct2, THEN conjunct2, THEN conjunct1])
  have d0: "distinct (map fst ([] :: zip))" by simp
  have dist: "distinct (map fst ?data2)"
    using T'[THEN conjunct2, THEN conjunct2, THEN conjunct2, THEN conjunct2, THEN conjunct2, THEN conjunct2, THEN conjunct2, THEN conjunct2, THEN conjunct2] d0 by blast
  have s: "(''secret.js'', ''key'') \<in> set ?data2"
    using kept n(2) f(2) by blast
  have two: "(''index.js'', ''two'') \<in> set ?data2"
    using added[rule_format, of 1 "''index.js''"] h n(1) by simp
  have one: "(''index.js'', ''one'') \<notin> set ?data2"
  proof
    assume "(''index.js'', ''one'') \<in> set ?data2"
    with two dist have "''one'' = ''two''"
      by (meson eq_key_imp_eq_value)
    then show False by simp
  qed
  show ?thesis using h(1,2,3) n d0 f s two one dist by blast
qed

section \<open>The desired-state loader\<close>

text \<open>
  C7, as stated, fails in its third part: with no declared path the loader returns
  \<open>null\<close> for both collections, not empty collections. The difference matters: on
  \<open>null\<close> the reconciliation issues no call, on an empty collection it deletes every
  existing binding.
\<close>

theorem loader_counterexample:
  "eventSourceList example_readJsonSync (example_program\<lparr> eventSourceFile := None \<rparr>)
     = Inr \<lparr> EventSourceMappings = None, ScheduleEvents = None \<rparr>
   \<and> eventSourceList example_readJsonSync (example_program\<lparr> eventSourceFile := None \<rparr>)
     \<noteq> Inr \<lparr> EventSourceMappings = Some [], ScheduleEvents = Some [] \<rparr>
   \<and> calls (updateEventSources example_lambda ''f'' example_existing None 0) = []
   \<and> calls (updateEventSources example_lambda ''f'' example_existing (Some []) 0)
       = [(0, DeleteEventSourceMapping (OpDelete ''u1'')),
          (0, DeleteEventSourceMapping (OpDelete ''u2''))]"
  by (simp add: eventSourceList_def example_program_def updateEventSources_def
      promise_resolve_def promise_all_def updateEventSourceList_def example_existing_def
      request_def example_lambda_def)

text \<open>
  C7, amended. Given no declared path (or an empty one), the loader returns \<open>null\<close> for
  both collections, and on \<open>null\<close> both reconciliations resolve at once with an empty
  result and issue no call. Given a path whose file cannot be read or parsed, it
  fails with the error of the read. Given a bare array, it returns the array as
  event sources and an empty schedule collection. Given a structured document, it
  returns the two collections, each missing one as the empty collection.
\<close>

theorem loader:
  "(eventSourceFile prog = None \<or> eventSourceFile prog = Some [] \<longrightarrow>
      eventSourceList rd prog = Inr \<lparr> EventSourceMappings = None, ScheduleEvents = None \<rparr>
      \<and> updateEventSources lambda name E None t = promise_resolve t []
      \<and> updateScheduleEvents se arn None t = promise_resolve t [])
   \<and> (\<forall>file. eventSourceFile prog = Some file \<and> file \<noteq> [] \<longrightarrow>
        (\<forall>err. rd file = Inl err \<longrightarrow> eventSourceList rd prog = Inl err)
      \<and> (\<forall>list. rd file = Inr (BareArray list) \<longrightarrow>
            eventSourceList rd prog = Inr \<lparr> EventSourceMappings = Some list, ScheduleEvents = Some [] \<rparr>)
      \<and> (\<forall>m s. rd file = Inr (Structured m s) \<longrightarrow>
            eventSourceList rd prog
              = Inr \<lparr> EventSourceMappings = Some (case m of None \<Rightarrow> [] | Some x \<Rightarrow> x),
                      ScheduleEvents = Some (case s of None \<Rightarrow> [] | Some x \<Rightarrow> x) \<rparr>))"
  by (auto simp: eventSourceList_def updateEventSources_def updateScheduleEvents_def)

theorem loader_witness:
  "eventSourceFile (example_program\<lparr> eventSourceFile := None \<rparr>) = None
   \<and> eventSourceList example_readJsonSync (example_program\<lparr> eventSourceFile := None \<rparr>)
       = Inr \<lparr> EventSourceMappings = None, ScheduleEvents = None \<rparr>
   \<and> eventSourceFile example_program = Some ''event_sources.json''
   \<and> example_readJsonSync ''event_sources.json'' = Inr (Structured (Some example_desired) None)
   \<and> eventSourceList example_readJsonSync example_program
       = Inr \<lparr> EventSourceMappings = Some example_desired, ScheduleEvents = Some [] \<rparr>
   \<and> eventSourceFile (example_program\<lparr> eventSourceFile := Some ''missing.json'' \<rparr>) = Some ''missing.json''
   \<and> example_readJsonSync ''missing.json'' = Inl (Error ''ENOENT'')
   \<and> eventSourceList example_readJsonSync (example_program\<lparr> eventSourceFile := Some ''missing.json'' \<rparr>)
       = Inl (Error ''ENOENT'')
   \<and> eventSourceList (\<lambda>_. Inr (BareArray example_desired)) example_program
       = Inr \<lparr> EventSourceMappings = Some example_desired, ScheduleEvents = Some [] \<rparr>"
  using loader[of "example_program\<lparr> eventSourceFile := None \<rparr>" example_readJsonSync]
    loader[of example_program example_readJsonSync]
    loader[of "example_program\<lparr> eventSourceFile := Some ''missing.json'' \<rparr>" example_readJsonSync]
    loader[of example_program "\<lambda>_. Inr (BareArray example_desired)"]
  by (simp add: example_program_def example_readJsonSync_def)

section \<open>Properties of \<open>Promise.all\<close>\<close>

lemma first_rejection_None:
  "first_rejection ps = None \<longleftrightarrow> (\<forall>p \<in> set ps. \<exists>v. outcome p = Inr v)"
  by (induction ps) (auto split: sum.splits option.splits)

lemma first_rejection_Some:
  "first_rejection ps = Some (t', e) \<Longrightarrow>
     \<exists>p \<in> set ps. outcome p = Inl e \<and> settled p = t'
       \<and> (\<forall>q \<in> set ps. (\<exists>e'. outcome q = Inl e') \<longrightarrow> t' \<le> settled q)"
proof (induction ps arbitrary: t' e)
  case Nil
  then show ?case by simp
next
  case (Cons p ps)
  show ?case
  proof (cases "outcome p")
    case (Inr v)
    then have "first_rejection ps = Some (t', e)" using Cons.prems by simp
    from Cons.IH[OF this] show ?thesis using Inr by auto
  next
    case (Inl err)
    show ?thesis
    proof (cases "first_rejection ps")
      case None
      then have "t' = settled p" "e = err" using Cons.prems Inl by simp_all
      moreover have "\<forall>q \<in> set ps. \<exists>v. outcome q = Inr v"
        using None by (simp add: first_rejection_None)
      ultimately show ?thesis using Inl by fastforce
    next
      case (Some te)
      obtain t2 e2 where te: "te = (t2, e2)" by (cases te)
      from Cons.IH[OF Some[unfolded te]] obtain q where q: "q \<in> set ps" "outcome q = Inl e2"
        "settled q = t2" "\<forall>r \<in> set ps. (\<exists>e'. outcome r = Inl e') \<longrightarrow> t2 \<le> settled r"
        by blast
      show ?thesis
      proof (cases "settled p \<le> t2")
        case True
        then have "t' = settled p" "e = err" using Cons.prems Inl Some te by simp_all
        then show ?thesis using Inl q True by fastforce
      next
        case False
        then have "t' = t2" "e = e2" using Cons.prems Inl Some te by simp_all
        then show ?thesis using Inl q False by fastforce
      qed
    qed
  qed
qed

lemma calls_promise_all: "calls (promise_all t ps) = concat (map calls ps)"
  by (simp add: promise_all_def split: option.splits prod.splits)

lemma fulfilled_values_all:
  "\<forall>p \<in> set ps. \<exists>v. outcome p = Inr v \<Longrightarrow>
     length (fulfilled_values ps) = length ps
     \<and> (\<forall>i < length ps. outcome (ps ! i) = Inr (fulfilled_values ps ! i))"
proof (induction ps)
  case Nil
  then show ?case by simp
next
  case (Cons p ps)
  then obtain v where v: "outcome p = Inr v" by auto
  have IH: "length (fulfilled_values ps) = length ps"
    "\<forall>i < length ps. outcome (ps ! i) = Inr (fulfilled_values ps ! i)"
    using Cons by auto
  show ?case using v IH by (auto simp: nth_Cons split: nat.splits)
qed

lemma promise_all_fulfilled:
  assumes "\<forall>p \<in> set ps. \<exists>v. outcome p = Inr v"
  shows "outcome (promise_all t ps) = Inr (fulfilled_values ps)"
  using assms by (simp add: promise_all_def first_rejection_None[symmetric])

lemma promise_all_rejected:
  assumes "\<exists>p \<in> set ps. \<exists>e. outcome p = Inl e"
  shows "\<exists>p \<in> set ps. \<exists>e. outcome p = Inl e \<and> outcome (promise_all t ps) = Inl e
           \<and> settled (promise_all t ps) = settled p
           \<and> (\<forall>q \<in> set ps. (\<exists>e'. outcome q = Inl e') \<longrightarrow> settled p \<le> settled q)"
proof -
  from assms obtain p0 e0 where p0: "p0 \<in> set ps" "outcome p0 = Inl e0" by blast
  then have "\<not> (\<exists>v. outcome p0 = Inr v)" by simp
  then have "first_rejection ps \<noteq> None"
    using p0(1) first_rejection_None[of ps] by blast
  then obtain t' e where r: "first_rejection ps = Some (t', e)" by (cases "first_rejection ps") auto
  from first_rejection_Some[OF r] obtain p where "p \<in> set ps" "outcome p = Inl e" "settled p = t'"
    "\<forall>q \<in> set ps. (\<exists>e'. outcome q = Inl e') \<longrightarrow> t' \<le> settled q" by blast
  moreover have "outcome (promise_all t ps) = Inl e" "settled (promise_all t ps) = t'"
    using r by (simp_all add: promise_all_def)
  ultimately show ?thesis by blast
qed

lemma promise_all_pair_rejected:
  assumes "outcome a = Inl e \<or> outcome b = Inl e"
  shows "\<exists>e'. outcome (promise_all t [a, b]) = Inl e'"
proof -
  have "\<exists>p \<in> set [a, b]. \<exists>e. outcome p = Inl e" using assms by auto
  from promise_all_rejected[OF this, of t] show ?thesis by blast
qed

lemma calls_promise_map [simp]: "calls (promise_map f p) = calls p"
  by (simp add: promise_map_def)

lemma outcome_promise_map_Inl [simp]: "outcome (promise_map f p) = Inl e \<longleftrightarrow> outcome p = Inl e"
  by (simp add: promise_map_def split: sum.splits)

section \<open>The calls behind the binding operations\<close>

lemma apply_update_event_source_eq:
  "apply_update_event_source lambda t op = request t (event_source_call op) (event_source_reply lambda op)"
  by (cases op) simp_all

lemma calls_updateEventSources:
  "calls (updateEventSources lambda name E (Some D) t)
     = map (\<lambda>op. (t, event_source_call op)) (updateEventSourceList name E D)"
  by (simp add: updateEventSources_def calls_promise_all apply_update_event_source_eq
      request_def o_def concat_map_singleton)

lemma outcome_apply_update_event_source:
  "outcome (apply_update_event_source lambda t op) = snd (event_source_reply lambda op)"
  by (simp add: apply_update_event_source_eq request_def)

lemma settled_apply_update_event_source:
  "settled (apply_update_event_source lambda t op) = t + fst (event_source_reply lambda op)"
  by (simp add: apply_update_event_source_eq request_def)

lemma event_source_call_inj: "event_source_call op = event_source_call op' \<Longrightarrow> op = op'"
  by (cases op; cases op') simp_all

lemma not_binding_call [simp]:
  "event_source_call op \<noteq> GetFunction n" "event_source_call op \<noteq> CreateFunction ps"
  "event_source_call op \<noteq> ListEventSourceMappings n" "event_source_call op \<noteq> ScheduleEventsAdd s"
  "event_source_call op \<noteq> UpdateFunctionCode n z p"
  "event_source_call op \<noteq> UpdateFunctionConfiguration conf"
  by (cases op; simp)+

lemma calls_updateEventSources_kind:
  "(t', c) \<in> set (calls (updateEventSources lambda name E D t)) \<Longrightarrow> \<exists>op. c = event_source_call op"
proof (cases D)
  case None
  assume "(t', c) \<in> set (calls (updateEventSources lambda name E D t))"
  then show ?thesis using None by (simp add: updateEventSources_def promise_resolve_def)
next
  case (Some sources)
  assume "(t', c) \<in> set (calls (updateEventSources lambda name E D t))"
  then show ?thesis using Some by (auto simp: calls_updateEventSources)
qed

lemma calls_uploadExisting_kind:
  "(t', c) \<in> set (calls (uploadExisting lambda ps t)) \<Longrightarrow>
     (\<exists>n z p. c = UpdateFunctionCode n z p) \<or> (\<exists>conf. c = UpdateFunctionConfiguration conf)"
  by (auto simp: uploadExisting_def Let_def split: sum.splits)

lemma calls_updateScheduleEvents_kind:
  "(t', c) \<in> set (calls (updateScheduleEvents se arn sl t)) \<Longrightarrow> \<exists>s. c = ScheduleEventsAdd s"
proof (cases sl)
  case None
  assume "(t', c) \<in> set (calls (updateScheduleEvents se arn sl t))"
  then show ?thesis using None by (simp add: updateScheduleEvents_def promise_resolve_def)
next
  case (Some ss)
  assume "(t', c) \<in> set (calls (updateScheduleEvents se arn sl t))"
  then show ?thesis using Some by (auto simp: updateScheduleEvents_eager)
qed

lemma calls_upload_then_schedule_kind:
  assumes "(t', c) \<in> set (calls (promise_then (uploadExisting lambda ps t)
             (\<lambda>t3 results. updateScheduleEvents se (FunctionArn results) sl t3)))"
  shows "(\<exists>n z p. c = UpdateFunctionCode n z p) \<or> (\<exists>conf. c = UpdateFunctionConfiguration conf)
         \<or> (\<exists>s. c = ScheduleEventsAdd s)"
  using assms calls_uploadExisting_kind[of t' c lambda ps t]
    calls_updateScheduleEvents_kind[of t' c se _ sl]
  by (auto simp: promise_then_def Let_def split: sum.splits)

lemma no_schedule_call:
  assumes "outcome (uploadExisting lambda ps t2) = Inl e"
  shows "(t', ScheduleEventsAdd s) \<notin> set (calls (uploadExisting lambda ps t2)
            @ calls (updateEventSources lambda name E D t2))"
  using calls_uploadExisting_kind[of t' "ScheduleEventsAdd s" lambda ps t2]
    calls_updateEventSources_kind[of t' "ScheduleEventsAdd s" lambda name E D t2]
  by (auto simp: not_binding_call(4)[THEN not_sym])

section \<open>The paths of a region\<close>

lemma region_create_failed:
  assumes "eventSourceList rd prog = Inr sources"
    and "snd (getFunction (NewLambda aws rgn) (FunctionName ps)) = Inl err"
    and "snd (createFunction (NewLambda aws rgn) ps) = Inl e"
  shows "deployToRegion aws rd prog ps rgn t =
           Inr \<lparr> calls = [(t, GetFunction (FunctionName ps)),
                           (t + fst (getFunction (NewLambda aws rgn) (FunctionName ps)), CreateFunction ps)],
                  settled = t + fst (getFunction (NewLambda aws rgn) (FunctionName ps))
                              + fst (createFunction (NewLambda aws rgn) ps),
                  outcome = Inl e \<rparr>"
  using assms
  by (simp add: deployToRegion_def Let_def after_call_def promise_then_def uploadNew_def request_def)

lemma region_created:
  assumes "eventSourceList rd prog = Inr sources"
    and "snd (getFunction (NewLambda aws rgn) (FunctionName ps)) = Inl err"
    and "snd (createFunction (NewLambda aws rgn) ps) = Inr results"
  shows "deployToRegion aws rd prog ps rgn t =
           (let t1 = t + fst (getFunction (NewLambda aws rgn) (FunctionName ps));
                t2 = t1 + fst (createFunction (NewLambda aws rgn) ps);
                bindings = create_path_bindings (NewLambda aws rgn) (NewScheduleEvents aws rgn)
                             (FunctionName ps) sources t2 results
            in Inr \<lparr> calls = (t, GetFunction (FunctionName ps)) # (t1, CreateFunction ps) # calls bindings,
                  settled = settled bindings,
                  outcome = outcome bindings \<rparr>)"
  using assms
  by (simp add: deployToRegion_def Let_def after_call_def promise_then_def uploadNew_def request_def)

lemma region_list_failed:
  assumes "eventSourceList rd prog = Inr sources"
    and "snd (getFunction (NewLambda aws rgn) (FunctionName ps)) = Inr u"
    and "listEventSourceMappings_cb (NewLambda aws rgn) (FunctionName ps)
           (t + fst (getFunction (NewLambda aws rgn) (FunctionName ps))) = (t2, Inl e)"
  shows "deployToRegion aws rd prog ps rgn t =
           Inr \<lparr> calls = [(t, GetFunction (FunctionName ps)),
                           (t + fst (getFunction (NewLambda aws rgn) (FunctionName ps)),
                            ListEventSourceMappings (FunctionName ps))],
                  settled = t2,
                  outcome = Inl e \<rparr>"
  using assms
  by (simp add: deployToRegion_def Let_def after_call_def promise_reject_def)

lemma region_updated:
  assumes "eventSourceList rd prog = Inr sources"
    and "snd (getFunction (NewLambda aws rgn) (FunctionName ps)) = Inr u"
    and "listEventSourceMappings_cb (NewLambda aws rgn) (FunctionName ps)
           (t + fst (getFunction (NewLambda aws rgn) (FunctionName ps))) = (t2, Inr existing)"
  shows "deployToRegion aws rd prog ps rgn t =
           (let t1 = t + fst (getFunction (NewLambda aws rgn) (FunctionName ps));
                bindings = update_path_bindings (NewLambda aws rgn) (NewScheduleEvents aws rgn)
                             ps sources t2 existing
            in Inr \<lparr> calls = (t, GetFunction (FunctionName ps))
                             # (t1, ListEventSourceMappings (FunctionName ps)) # calls bindings,
                  settled = settled bindings,
                  outcome = outcome bindings \<rparr>)"
  using assms
  by (simp add: deployToRegion_def Let_def after_call_def)

lemma calls_update_path:
  "calls (update_path_bindings lambda se ps sources t2 existing) =
     calls (promise_then (uploadExisting lambda ps t2)
             (\<lambda>t3 results. updateScheduleEvents se (FunctionArn results) (ScheduleEvents sources) t3))
     @ calls (updateEventSources lambda (FunctionName ps) existing (EventSourceMappings sources) t2)"
  by (simp add: update_path_bindings_def calls_promise_all)

lemma calls_create_path:
  "calls (create_path_bindings lambda se name sources t2 results) =
     calls (updateEventSources lambda name [] (EventSourceMappings sources) t2)
     @ calls (updateScheduleEvents se (FunctionArn results) (ScheduleEvents sources) t2)"
  by (simp add: create_path_bindings_def calls_promise_all)

lemma upload_failed_then:
  "outcome (uploadExisting lambda ps t2) = Inl e \<Longrightarrow>
     promise_then (uploadExisting lambda ps t2) f
       = \<lparr> calls = calls (uploadExisting lambda ps t2), settled = settled (uploadExisting lambda ps t2),
           outcome = Inl e \<rparr>"
  by (simp add: promise_then_def)

lemma update_path_rejected:
  assumes "outcome (uploadExisting lambda ps t2) = Inl e"
  shows "\<exists>e'. outcome (update_path_bindings lambda se ps sources t2 existing) = Inl e'"
proof -
  let ?a = "promise_map ScheduleResults
          (promise_then (uploadExisting lambda ps t2)
             (\<lambda>t3 results. updateScheduleEvents se (FunctionArn results) (ScheduleEvents sources) t3))"
  let ?b = "promise_map EventSourceResults
          (updateEventSources lambda (FunctionName ps) existing (EventSourceMappings sources) t2)"
  have "outcome ?a = Inl e" using assms by (simp add: upload_failed_then)
  then have "\<exists>p \<in> set [?a, ?b]. \<exists>e. outcome p = Inl e" by simp
  from promise_all_rejected[OF this, of t2] show ?thesis
    unfolding update_path_bindings_def by blast
qed

text \<open>
  C5, as stated, fails twice. A hard failure of the probe (here an access error)
  does not fail the region: the error is taken to mean that the function does not
  exist, the function is created, a binding is created, and the region is
  fulfilled. And when the function exists and its code update fails, the region is
  rejected, but the two binding operations have been issued, at the time of the
  code update.
\<close>

theorem region_paths_counterexample:
  "deployToRegion
     (example_aws\<lparr> NewLambda := (\<lambda>_. example_lambda\<lparr> getFunction :=
                                       (\<lambda>_. (1, Inl (Error ''AccessDeniedException''))) \<rparr>) \<rparr>)
     example_readJsonSync example_program example_params ''us-east-1'' 0
     = Inr \<lparr> calls = [(0, GetFunction ''f''), (1, CreateFunction example_params),
                      (3, CreateEventSourceMapping (OpCreate ''f'' (Some ''A'') True 10 ''LATEST''))],
             settled = 4,
             outcome = Inr [EventSourceResults [''created''], ScheduleResults []] \<rparr>
   \<and> deployToRegion
     (example_aws\<lparr> NewLambda := (\<lambda>_. example_lambda\<lparr> updateFunctionCode :=
                                       (\<lambda>_ _ _. (3, Inl (Error ''CodeStorageExceededException''))) \<rparr>) \<rparr>)
     example_readJsonSync example_program example_params ''us-east-1'' 0
     = Inr \<lparr> calls = [(0, GetFunction ''f''), (1, ListEventSourceMappings ''f''),
                      (2, UpdateFunctionCode ''f'' ''PK'' False),
                      (2, UpdateEventSourceMapping (OpUpdate ''f'' (Some True) (Some 10) ''u1'')),
                      (2, DeleteEventSourceMapping (OpDelete ''u2''))],
             settled = 5,
             outcome = Inl (Error ''CodeStorageExceededException'') \<rparr>"
  by code_simp

text \<open>
  C5, amended. When the event source file can be loaded, the reconciliation of a
  region is a promise, and:
  \<^item> when the probe calls back with an error, whatever the error, the Create path is
    taken: the second call is \<open>createFunction\<close>; when \<open>createFunction\<close> fails, the region
    is rejected with its error and no further call is made, so no binding work is
    attempted;
  \<^item> when the probe succeeds, the Update path is taken: the second call lists the
    existing bindings; when the listing fails, the region is rejected with its error
    and no further call is made;
  \<^item> when the listing succeeds and the function update fails (its code update or its
    configuration update), the region is rejected, and no schedule upsert is issued;
    but the event-source operations are issued, at the time the function update
    starts: the calls of the region are the probe, the listing, those of the
    function update and those of the event-source operations.
\<close>

theorem region_paths:
  assumes src: "eventSourceList rd prog = Inr sources"
  shows "(let lambda = NewLambda aws rgn;
              name = FunctionName ps;
              probe = getFunction lambda name;
              t1 = t + fst probe;
              listed = listEventSourceMappings_cb lambda name t1
          in \<exists>q. deployToRegion aws rd prog ps rgn t = Inr q
             \<and> (\<forall>err. snd probe = Inl err \<longrightarrow>
                   take 2 (calls q) = [(t, GetFunction name), (t1, CreateFunction ps)]
                   \<and> (\<forall>e. snd (createFunction lambda ps) = Inl e \<longrightarrow>
                         outcome q = Inl e
                         \<and> calls q = [(t, GetFunction name), (t1, CreateFunction ps)]))
             \<and> (\<forall>u. snd probe = Inr u \<longrightarrow>
                   take 2 (calls q) = [(t, GetFunction name), (t1, ListEventSourceMappings name)]
                   \<and> (\<forall>e. snd listed = Inl e \<longrightarrow>
                         outcome q = Inl e
                         \<and> calls q = [(t, GetFunction name), (t1, ListEventSourceMappings name)])
                   \<and> (\<forall>existing e. snd listed = Inr existing
                           \<and> outcome (uploadExisting lambda ps (fst listed)) = Inl e \<longrightarrow>
                         (\<exists>e'. outcome q = Inl e')
                         \<and> calls q = [(t, GetFunction name), (t1, ListEventSourceMappings name)]
                               @ calls (uploadExisting lambda ps (fst listed))
                               @ calls (updateEventSources lambda name existing
                                          (EventSourceMappings sources) (fst listed))
                         \<and> (\<forall>t' s. (t', ScheduleEventsAdd s) \<notin> set (calls q)))))"
proof -
  let ?lambda = "NewLambda aws rgn" and ?name = "FunctionName ps"
  let ?probe = "getFunction ?lambda ?name"
  let ?t1 = "t + fst ?probe"
  let ?listed = "listEventSourceMappings_cb ?lambda ?name ?t1"
  show ?thesis
  proof (cases "snd ?probe")
    case (Inl err)
    show ?thesis
    proof (cases "snd (createFunction ?lambda ps)")
      case e: (Inl e)
      show ?thesis
        unfolding Let_def region_create_failed[OF src Inl e] using Inl e by simp
    next
      case r: (Inr results)
      show ?thesis
        unfolding Let_def region_created[OF src Inl r] using Inl r by simp
    qed
  next
    case (Inr u)
    obtain t2 res where l: "?listed = (t2, res)" by (cases ?listed)
    show ?thesis
    proof (cases res)
      case e: (Inl e)
      show ?thesis
        unfolding Let_def region_list_failed[OF src Inr l[unfolded e]] using Inr l e by simp
    next
      case x: (Inr existing)
      show ?thesis
        unfolding Let_def region_updated[OF src Inr l[unfolded x]]
        using Inr l x update_path_rejected[of ?lambda ps t2 _ "NewScheduleEvents aws rgn" sources existing]
          no_schedule_call[of ?lambda ps t2 _ _ _ ?name existing "EventSourceMappings sources"]
        by (auto simp: calls_update_path upload_failed_then)
    qed
  qed
qed

theorem region_paths_witness:
  "eventSourceList example_readJsonSync example_program
     = Inr \<lparr> EventSourceMappings = Some example_desired, ScheduleEvents = Some [] \<rparr>
   \<and> snd (getFunction example_lambda ''f'') = Inr ()
   \<and> listEventSourceMappings_cb example_lambda ''f'' 1 = (2, Inr example_existing)
   \<and> outcome (uploadExisting
        (example_lambda\<lparr> updateFunctionCode := (\<lambda>_ _ _. (3, Inl (Error ''CodeStorageExceededException''))) \<rparr>)
        example_params 2) = Inl (Error ''CodeStorageExceededException'')
   \<and> (\<exists>q. deployToRegion
             (example_aws\<lparr> NewLambda := (\<lambda>_. example_lambda\<lparr> updateFunctionCode :=
                                       (\<lambda>_ _ _. (3, Inl (Error ''CodeStorageExceededException''))) \<rparr>) \<rparr>)
             example_readJsonSync example_program example_params ''us-east-1'' 0 = Inr q
          \<and> take 2 (calls q) = [(0, GetFunction ''f''), (1, ListEventSourceMappings ''f'')]
          \<and> (\<exists>e'. outcome q = Inl e')
          \<and> (2, UpdateEventSourceMapping (OpUpdate ''f'' (Some True) (Some 10) ''u1'')) \<in> set (calls q))
   \<and> snd (getFunction (example_lambda\<lparr> getFunction := (\<lambda>_. (1, Inl (Error ''ResourceNotFoundException''))),
                           createFunction := (\<lambda>_. (2, Inl (Error ''AccessDeniedException''))) \<rparr>) ''f'')
       = Inl (Error ''ResourceNotFoundException'')
   \<and> (\<exists>q. deployToRegion
             (example_aws\<lparr> NewLambda := (\<lambda>_. example_lambda\<lparr>
                  getFunction := (\<lambda>_. (1, Inl (Error ''ResourceNotFoundException''))),
                  createFunction := (\<lambda>_. (2, Inl (Error ''AccessDeniedException''))) \<rparr>) \<rparr>)
             example_readJsonSync example_program example_params ''us-east-1'' 0 = Inr q
          \<and> calls q = [(0, GetFunction ''f''), (1, CreateFunction example_params)]
          \<and> outcome q = Inl (Error ''AccessDeniedException''))"
proof -
  let ?bad = "example_lambda\<lparr> updateFunctionCode :=
                 (\<lambda>_ _ _. (3, Inl (Error ''CodeStorageExceededException''))) \<rparr>"
  let ?code = "example_aws\<lparr> NewLambda := (\<lambda>_. ?bad) \<rparr>"
  let ?new = "example_aws\<lparr> NewLambda := (\<lambda>_. example_lambda\<lparr>
                  getFunction := (\<lambda>_. (1, Inl (Error ''ResourceNotFoundException''))),
                  createFunction := (\<lambda>_. (2, Inl (Error ''AccessDeniedException''))) \<rparr>) \<rparr>"
  have src: "eventSourceList example_readJsonSync example_program
     = Inr \<lparr> EventSourceMappings = Some example_desired, ScheduleEvents = Some [] \<rparr>"
    by code_simp
  have name: "FunctionName example_params = ''f''" by (simp add: example_params_def)
  have lam: "NewLambda ?code ''us-east-1'' = ?bad" by (simp add: example_aws_def)
  have probe: "snd (getFunction example_lambda ''f'') = Inr ()"
    "snd (getFunction ?bad ''f'') = Inr ()"
    "fst (getFunction ?bad ''f'') = 1"
    "snd (getFunction (NewLambda ?new ''us-east-1'') ''f'') = Inl (Error ''ResourceNotFoundException'')"
    "snd (createFunction (NewLambda ?new ''us-east-1'') example_params) = Inl (Error ''AccessDeniedException'')"
    "fst (getFunction (NewLambda ?new ''us-east-1'') ''f'') = 1"
    by (simp_all add: example_lambda_def example_aws_def)
  have g1: "fst (getFunction example_lambda ''f'') = 1" by (simp add: example_lambda_def)
  have listed: "listEventSourceMappings_cb example_lambda ''f'' 1 = (2, Inr example_existing)"
    "listEventSourceMappings_cb ?bad ''f'' 1 = (2, Inr example_existing)"
    by (simp_all add: listEventSourceMappings_cb_def example_lambda_def)
  have up: "outcome (uploadExisting ?bad example_params 2) = Inl (Error ''CodeStorageExceededException'')"
    by code_simp
  have es: "calls (updateEventSources ?bad ''f'' example_existing (Some example_desired) 2)
      = [(2, UpdateEventSourceMapping (OpUpdate ''f'' (Some True) (Some 10) ''u1'')),
         (2, DeleteEventSourceMapping (OpDelete ''u2''))]"
    by code_simp
  from region_paths[OF src, of ?code "''us-east-1''" example_params 0]
  obtain q where q: "deployToRegion ?code example_readJsonSync example_program example_params ''us-east-1'' 0 = Inr q"
    and found: "\<forall>u. snd (getFunction ?bad ''f'') = Inr u \<longrightarrow>
        take 2 (calls q) = [(0, GetFunction ''f''), (0 + fst (getFunction ?bad ''f''), ListEventSourceMappings ''f'')]
        \<and> (\<forall>e. snd (listEventSourceMappings_cb ?bad ''f'' (0 + fst (getFunction ?bad ''f''))) = Inl e \<longrightarrow>
               outcome q = Inl e
               \<and> calls q = [(0, GetFunction ''f''), (0 + fst (getFunction ?bad ''f''), ListEventSourceMappings ''f'')])
        \<and> (\<forall>existing e.
               snd (listEventSourceMappings_cb ?bad ''f'' (0 + fst (getFunction ?bad ''f''))) = Inr existing
               \<and> outcome (uploadExisting ?bad example_params
                    (fst (listEventSourceMappings_cb ?bad ''f'' (0 + fst (getFunction ?bad ''f''))))) = Inl e \<longrightarrow>
               (\<exists>e'. outcome q = Inl e')
               \<and> calls q = [(0, GetFunction ''f''), (0 + fst (getFunction ?bad ''f''), ListEventSourceMappings ''f'')]
                     @ calls (uploadExisting ?bad example_params
                          (fst (listEventSourceMappings_cb ?bad ''f'' (0 + fst (getFunction ?bad ''f'')))))
                     @ calls (updateEventSources ?bad ''f'' existing
                          (EventSourceMappings \<lparr> EventSourceMappings = Some example_desired, ScheduleEvents = Some [] \<rparr>)
                          (fst (listEventSourceMappings_cb ?bad ''f'' (0 + fst (getFunction ?bad ''f'')))))
               \<and> (\<forall>t' s. (t', ScheduleEventsAdd s) \<notin> set (calls q)))"
    unfolding Let_def name lam by blast
  from found probe(2) have
    t2: "take 2 (calls q) = [(0, GetFunction ''f''), (0 + fst (getFunction ?bad ''f''), ListEventSourceMappings ''f'')]"
    and upd: "\<forall>existing e.
               snd (listEventSourceMappings_cb ?bad ''f'' (0 + fst (getFunction ?bad ''f''))) = Inr existing
               \<and> outcome (uploadExisting ?bad example_params
                    (fst (listEventSourceMappings_cb ?bad ''f'' (0 + fst (getFunction ?bad ''f''))))) = Inl e \<longrightarrow>
               (\<exists>e'. outcome q = Inl e')
               \<and> calls q = [(0, GetFunction ''f''), (0 + fst (getFunction ?bad ''f''), ListEventSourceMappings ''f'')]
                     @ calls (uploadExisting ?bad example_params
                          (fst (listEventSourceMappings_cb ?bad ''f'' (0 + fst (getFunction ?bad ''f'')))))
                     @ calls (updateEventSources ?bad ''f'' existing
                          (EventSourceMappings \<lparr> EventSourceMappings = Some example_desired, ScheduleEvents = Some [] \<rparr>)
                          (fst (listEventSourceMappings_cb ?bad ''f'' (0 + fst (getFunction ?bad ''f'')))))
               \<and> (\<forall>t' s. (t', ScheduleEventsAdd s) \<notin> set (calls q))"
    by blast+
  have rej: "\<exists>e'. outcome q = Inl e'"
    and cq: "calls q = [(0, GetFunction ''f''), (1, ListEventSourceMappings ''f'')]
                     @ calls (uploadExisting ?bad example_params 2)
                     @ calls (updateEventSources ?bad ''f'' example_existing (Some example_desired) 2)"
    using upd[rule_format, of example_existing "Error ''CodeStorageExceededException''"] up
    by (simp_all add: probe(3) listed(2)[simplified] g1)
  have mem: "(2, UpdateEventSourceMapping (OpUpdate ''f'' (Some True) (Some 10) ''u1'')) \<in> set (calls q)"
    by (simp add: cq es)
  have a: "\<exists>q. deployToRegion ?code example_readJsonSync example_program example_params ''us-east-1'' 0 = Inr q
          \<and> take 2 (calls q) = [(0, GetFunction ''f''), (1, ListEventSourceMappings ''f'')]
          \<and> (\<exists>e'. outcome q = Inl e')
          \<and> (2, UpdateEventSourceMapping (OpUpdate ''f'' (Some True) (Some 10) ''u1'')) \<in> set (calls q)"
    using q t2 rej mem by (simp add: probe(3) g1)
  have b: "\<exists>q. deployToRegion ?new example_readJsonSync example_program example_params ''us-east-1'' 0 = Inr q
          \<and> calls q = [(0, GetFunction ''f''), (1, CreateFunction example_params)]
          \<and> outcome q = Inl (Error ''AccessDeniedException'')"
    using region_paths[OF src, of ?new "''us-east-1''" example_params 0] probe(4,5,6)
    unfolding Let_def name by force
  show ?thesis using src probe(1,4) listed(1) up a b
    by (simp add: example_aws_def)
qed

section \<open>The binding operations\<close>

lemma updateEventSources_all_fulfilled:
  assumes "\<forall>op \<in> set (updateEventSourceList name E D). \<exists>v. snd (event_source_reply lambda op) = Inr v"
  shows "\<exists>vs. outcome (updateEventSources lambda name E (Some D) t) = Inr vs
           \<and> length vs = length (updateEventSourceList name E D)
           \<and> (\<forall>i < length (updateEventSourceList name E D).
                 snd (event_source_reply lambda (updateEventSourceList name E D ! i)) = Inr (vs ! i))"
proof -
  let ?ops = "updateEventSourceList name E D"
  let ?ps = "map (apply_update_event_source lambda t) ?ops"
  have all: "\<forall>p \<in> set ?ps. \<exists>v. outcome p = Inr v"
    using assms by (auto simp: outcome_apply_update_event_source)
  from fulfilled_values_all[OF all] promise_all_fulfilled[OF all, of t]
  show ?thesis by (auto simp: updateEventSources_def outcome_apply_update_event_source)
qed

lemma updateEventSources_first_failure:
  assumes "\<exists>op \<in> set (updateEventSourceList name E D). \<exists>e. snd (event_source_reply lambda op) = Inl e"
  shows "\<exists>op \<in> set (updateEventSourceList name E D). \<exists>e.
            snd (event_source_reply lambda op) = Inl e
          \<and> outcome (updateEventSources lambda name E (Some D) t) = Inl e
          \<and> settled (updateEventSources lambda name E (Some D) t) = t + fst (event_source_reply lambda op)
          \<and> (\<forall>op' \<in> set (updateEventSourceList name E D).
                (\<exists>e'. snd (event_source_reply lambda op') = Inl e') \<longrightarrow>
                fst (event_source_reply lambda op) \<le> fst (event_source_reply lambda op'))"
proof -
  let ?ops = "updateEventSourceList name E D"
  let ?ps = "map (apply_update_event_source lambda t) ?ops"
  have p: "updateEventSources lambda name E (Some D) t = promise_all t ?ps"
    by (simp add: updateEventSources_def)
  have "\<exists>p \<in> set ?ps. \<exists>e. outcome p = Inl e"
    using assms by (auto simp: outcome_apply_update_event_source)
  from promise_all_rejected[OF this, of t] obtain q e where
    q: "q \<in> set ?ps" "outcome q = Inl e" "outcome (promise_all t ?ps) = Inl e"
      "settled (promise_all t ?ps) = settled q"
      "\<forall>r \<in> set ?ps. (\<exists>e'. outcome r = Inl e') \<longrightarrow> settled q \<le> settled r"
    by blast
  from q(1) obtain op where op: "op \<in> set ?ops" "q = apply_update_event_source lambda t op"
    by auto
  have "\<forall>op' \<in> set ?ops. (\<exists>e'. snd (event_source_reply lambda op') = Inl e') \<longrightarrow>
          fst (event_source_reply lambda op) \<le> fst (event_source_reply lambda op')"
  proof (intro ballI impI)
    fix op' assume o': "op' \<in> set ?ops" "\<exists>e'. snd (event_source_reply lambda op') = Inl e'"
    then have "settled q \<le> settled (apply_update_event_source lambda t op')"
      using q(5) by (auto simp: outcome_apply_update_event_source)
    then show "fst (event_source_reply lambda op) \<le> fst (event_source_reply lambda op')"
      by (simp add: op(2) settled_apply_update_event_source)
  qed
  then show ?thesis
    using op q(2,3,4)
    by (auto simp: p outcome_apply_update_event_source settled_apply_update_event_source)
qed

lemma updateEventSources_rejected:
  assumes "op \<in> set (updateEventSourceList name E D)"
    and "snd (event_source_reply lambda op) = Inl e"
  shows "\<exists>e'. outcome (updateEventSources lambda name E (Some D) t) = Inl e'"
proof -
  let ?ps = "map (apply_update_event_source lambda t) (updateEventSourceList name E D)"
  have "outcome (apply_update_event_source lambda t op) = Inl e"
    using assms(2) by (simp add: apply_update_event_source_eq request_def)
  then have "\<exists>p \<in> set ?ps. \<exists>e. outcome p = Inl e" using assms(1) by auto
  from promise_all_rejected[OF this, of t] show ?thesis
    by (auto simp: updateEventSources_def)
qed

lemma failed_call_rejects:
  assumes "(t', event_source_call op) \<in> set (calls (updateEventSources lambda name E D t))"
    and "snd (event_source_reply lambda op) = Inl e"
  shows "\<exists>e'. outcome (updateEventSources lambda name E D t) = Inl e'"
proof (cases D)
  case None
  then show ?thesis using assms(1) by (simp add: updateEventSources_def promise_resolve_def)
next
  case (Some sources)
  then have "op \<in> set (updateEventSourceList name E sources)"
    using assms(1) by (auto simp: calls_updateEventSources dest: event_source_call_inj)
  from updateEventSources_rejected[OF this assms(2), of t] show ?thesis using Some by simp
qed

lemma binding_failure_fails_region:
  assumes q: "deployToRegion aws rd prog ps rgn t = Inr q"
    and c: "(t', event_source_call op) \<in> set (calls q)"
    and f: "snd (event_source_reply (NewLambda aws rgn) op) = Inl e"
  shows "\<exists>e'. outcome q = Inl e'"
proof -
  let ?lambda = "NewLambda aws rgn" and ?name = "FunctionName ps"
  let ?se = "NewScheduleEvents aws rgn"
  let ?probe = "getFunction ?lambda ?name"
  let ?t1 = "t + fst ?probe"
  obtain sources where src: "eventSourceList rd prog = Inr sources"
    using q by (cases "eventSourceList rd prog") (simp_all add: deployToRegion_def)
  show ?thesis
  proof (cases "snd ?probe")
    case (Inl err)
    show ?thesis
    proof (cases "snd (createFunction ?lambda ps)")
      case e: (Inl e)
      show ?thesis using q c unfolding region_create_failed[OF src Inl e] by auto
    next
      case r: (Inr results)
      let ?t2 = "?t1 + fst (createFunction ?lambda ps)"
      let ?es = "updateEventSources ?lambda ?name [] (EventSourceMappings sources) ?t2"
      have qeq: "q = \<lparr> calls = (t, GetFunction ?name) # (?t1, CreateFunction ps)
                          # calls (create_path_bindings ?lambda ?se ?name sources ?t2 results),
                       settled = settled (create_path_bindings ?lambda ?se ?name sources ?t2 results),
                       outcome = outcome (create_path_bindings ?lambda ?se ?name sources ?t2 results) \<rparr>"
        using q unfolding region_created[OF src Inl r] Let_def by simp
      have "(t', event_source_call op) \<in> set (calls ?es)"
        using c calls_updateScheduleEvents_kind[of t' "event_source_call op" ?se _ "ScheduleEvents sources" ?t2]
        by (auto simp: qeq calls_create_path)
      from failed_call_rejects[OF this f] obtain e' where "outcome ?es = Inl e'" by blast
      then have "outcome (promise_map EventSourceResults ?es) = Inl e'" by simp
      then show ?thesis
        unfolding qeq create_path_bindings_def
        using promise_all_pair_rejected[of "promise_map EventSourceResults ?es" e'] by auto
    qed
  next
    case (Inr u)
    obtain t2 res where l: "listEventSourceMappings_cb ?lambda ?name ?t1 = (t2, res)"
      by (cases "listEventSourceMappings_cb ?lambda ?name ?t1")
    show ?thesis
    proof (cases res)
      case e: (Inl e)
      show ?thesis using q c unfolding region_list_failed[OF src Inr l[unfolded e]] by auto
    next
      case x: (Inr existing)
      let ?es = "updateEventSources ?lambda ?name existing (EventSourceMappings sources) t2"
      have qeq: "q = \<lparr> calls = (t, GetFunction ?name) # (?t1, ListEventSourceMappings ?name)
                          # calls (update_path_bindings ?lambda ?se ps sources t2 existing),
                       settled = settled (update_path_bindings ?lambda ?se ps sources t2 existing),
                       outcome = outcome (update_path_bindings ?lambda ?se ps sources t2 existing) \<rparr>"
        using q unfolding region_updated[OF src Inr l[unfolded x]] Let_def by simp
      have "(t', event_source_call op) \<in> set (calls ?es)"
        using c calls_upload_then_schedule_kind[of t' "event_source_call op" ?lambda ps t2 ?se "ScheduleEvents sources"]
        by (auto simp: qeq calls_update_path)
      from failed_call_rejects[OF this f] obtain e' where "outcome ?es = Inl e'" by blast
      then have "outcome (promise_map EventSourceResults ?es) = Inl e'" by simp
      then show ?thesis
        unfolding qeq update_path_bindings_def
        using promise_all_pair_rejected[of _ e' "promise_map EventSourceResults ?es"] by auto
    qed
  qed
qed

text \<open>
  C3, as stated, fails. When the delete of one binding fails, the promise of
  \<open>_updateEventSources\<close> is rejected with that error: the result of the update that
  succeeded is not collected. And the region is rejected with the same error, at
  time 3, before its configuration update is issued at time 5.
\<close>

theorem binding_error_escalates:
  "outcome (updateEventSources
              (example_lambda\<lparr> deleteEventSourceMapping := (\<lambda>_. (1, Inl (Error ''ResourceInUseException''))) \<rparr>)
              ''f'' example_existing (Some example_desired) 0)
     = Inl (Error ''ResourceInUseException'')
   \<and> deployToRegion
        (example_aws\<lparr> NewLambda := (\<lambda>_. example_lambda\<lparr> deleteEventSourceMapping :=
                                          (\<lambda>_. (1, Inl (Error ''ResourceInUseException''))) \<rparr>) \<rparr>)
        example_readJsonSync example_program example_params ''us-east-1'' 0
     = Inr \<lparr> calls = [(0, GetFunction ''f''), (1, ListEventSourceMappings ''f''),
                      (2, UpdateFunctionCode ''f'' ''PK'' False),
                      (5, UpdateFunctionConfiguration (function_configuration.truncate example_params)),
                      (2, UpdateEventSourceMapping (OpUpdate ''f'' (Some True) (Some 10) ''u1'')),
                      (2, DeleteEventSourceMapping (OpDelete ''u2''))],
             settled = 3,
             outcome = Inl (Error ''ResourceInUseException'') \<rparr>"
  by code_simp

text \<open>
  C3, amended. For every list of binding operations, every operation is issued at
  the time \<open>_updateEventSources\<close> is called, in the order of the list: none waits for
  another, and no failure keeps another from being issued. If all succeed, the
  promise is fulfilled with one result per operation, in order. If some operation
  fails, the promise is rejected with the error of the operation that fails first,
  when it fails, and no result is collected. A region one of whose binding
  operations fails is rejected.
\<close>

theorem binding_operations_concurrent:
  "(let ops = updateEventSourceList name E D;
        p = updateEventSources lambda name E (Some D) t
    in calls p = map (\<lambda>op. (t, event_source_call op)) ops
     \<and> ((\<forall>op \<in> set ops. \<exists>v. snd (event_source_reply lambda op) = Inr v) \<longrightarrow>
          (\<exists>vs. outcome p = Inr vs \<and> length vs = length ops
             \<and> (\<forall>i < length ops. snd (event_source_reply lambda (ops ! i)) = Inr (vs ! i))))
     \<and> ((\<exists>op \<in> set ops. \<exists>e. snd (event_source_reply lambda op) = Inl e) \<longrightarrow>
          (\<exists>op \<in> set ops. \<exists>e. snd (event_source_reply lambda op) = Inl e \<and> outcome p = Inl e
             \<and> settled p = t + fst (event_source_reply lambda op)
             \<and> (\<forall>op' \<in> set ops. (\<exists>e'. snd (event_source_reply lambda op') = Inl e') \<longrightarrow>
                   fst (event_source_reply lambda op) \<le> fst (event_source_reply lambda op')))))
   \<and> (\<forall>q t' op e. deployToRegion aws rd prog ps rgn t0 = Inr q
          \<and> (t', event_source_call op) \<in> set (calls q)
          \<and> snd (event_source_reply (NewLambda aws rgn) op) = Inl e \<longrightarrow>
        (\<exists>e'. outcome q = Inl e'))"
  unfolding Let_def calls_updateEventSources
  using updateEventSources_all_fulfilled[of name E D lambda t]
    updateEventSources_first_failure[of name E D lambda t]
    binding_failure_fails_region[of aws rd prog ps rgn t0]
  by blast

theorem binding_operations_concurrent_witness:
  "updateEventSourceList ''f'' example_existing example_desired
     = [OpUpdate ''f'' (Some True) (Some 10) ''u1'', OpDelete ''u2'']
   \<and> snd (event_source_reply
            (example_lambda\<lparr> deleteEventSourceMapping := (\<lambda>_. (1, Inl (Error ''ResourceInUseException''))) \<rparr>)
            (OpDelete ''u2'')) = Inl (Error ''ResourceInUseException'')
   \<and> calls (updateEventSources
              (example_lambda\<lparr> deleteEventSourceMapping := (\<lambda>_. (1, Inl (Error ''ResourceInUseException''))) \<rparr>)
              ''f'' example_existing (Some example_desired) 0)
       = [(0, UpdateEventSourceMapping (OpUpdate ''f'' (Some True) (Some 10) ''u1'')),
          (0, DeleteEventSourceMapping (OpDelete ''u2''))]
   \<and> outcome (updateEventSources
              (example_lambda\<lparr> deleteEventSourceMapping := (\<lambda>_. (1, Inl (Error ''ResourceInUseException''))) \<rparr>)
              ''f'' example_existing (Some example_desired) 0)
       = Inl (Error ''ResourceInUseException'')
   \<and> snd (event_source_reply example_lambda (OpUpdate ''f'' (Some True) (Some 10) ''u1'')) = Inr ''updated''
   \<and> snd (event_source_reply example_lambda (OpDelete ''u2'')) = Inr ''deleted''
   \<and> outcome (updateEventSources example_lambda ''f'' example_existing (Some example_desired) 0)
       = Inr [''updated'', ''deleted'']
   \<and> (\<exists>q. deployToRegion
             (example_aws\<lparr> NewLambda := (\<lambda>_. example_lambda\<lparr> deleteEventSourceMapping :=
                                          (\<lambda>_. (1, Inl (Error ''ResourceInUseException''))) \<rparr>) \<rparr>)
             example_readJsonSync example_program example_params ''us-east-1'' 0 = Inr q
          \<and> (2, event_source_call (OpDelete ''u2'')) \<in> set (calls q)
          \<and> (\<exists>e'. outcome q = Inl e'))"
proof -
  let ?bad = "example_lambda\<lparr> deleteEventSourceMapping := (\<lambda>_. (1, Inl (Error ''ResourceInUseException''))) \<rparr>"
  have ops: "updateEventSourceList ''f'' example_existing example_desired
     = [OpUpdate ''f'' (Some True) (Some 10) ''u1'', OpDelete ''u2'']"
    by code_simp
  have r: "snd (event_source_reply ?bad (OpDelete ''u2'')) = Inl (Error ''ResourceInUseException'')"
    "snd (event_source_reply example_lambda (OpUpdate ''f'' (Some True) (Some 10) ''u1'')) = Inr ''updated''"
    "snd (event_source_reply example_lambda (OpDelete ''u2'')) = Inr ''deleted''"
    by (simp_all add: example_lambda_def)
  have "calls (updateEventSources ?bad ''f'' example_existing (Some example_desired) 0)
          = map (\<lambda>op. (0, event_source_call op))
              (updateEventSourceList ''f'' example_existing example_desired)"
    using binding_operations_concurrent[of "''f''" example_existing example_desired ?bad 0]
    unfolding Let_def by blast
  then have c: "calls (updateEventSources ?bad ''f'' example_existing (Some example_desired) 0)
       = [(0, UpdateEventSourceMapping (OpUpdate ''f'' (Some True) (Some 10) ''u1'')),
          (0, DeleteEventSourceMapping (OpDelete ''u2''))]"
    by (simp add: ops)
  have o: "outcome (updateEventSources ?bad ''f'' example_existing (Some example_desired) 0)
       = Inl (Error ''ResourceInUseException'')"
    "outcome (updateEventSources example_lambda ''f'' example_existing (Some example_desired) 0)
       = Inr [''updated'', ''deleted'']"
    by code_simp+
  let ?aws = "example_aws\<lparr> NewLambda := (\<lambda>_. ?bad) \<rparr>"
  let ?q = "\<lparr> calls = [(0, GetFunction ''f''), (1, ListEventSourceMappings ''f''),
                      (2, UpdateFunctionCode ''f'' ''PK'' False),
                      (5, UpdateFunctionConfiguration (function_configuration.truncate example_params)),
                      (2, UpdateEventSourceMapping (OpUpdate ''f'' (Some True) (Some 10) ''u1'')),
                      (2, DeleteEventSourceMapping (OpDelete ''u2''))],
             settled = 3,
             outcome = Inl (Error ''ResourceInUseException'') :: error + task_results list \<rparr>"
  have q: "deployToRegion ?aws example_readJsonSync example_program example_params ''us-east-1'' 0
             = Inr ?q"
    by code_simp
  have m: "(2, event_source_call (OpDelete ''u2'')) \<in> set (calls ?q)" by simp
  have f: "snd (event_source_reply (NewLambda ?aws ''us-east-1'') (OpDelete ''u2''))
             = Inl (Error ''ResourceInUseException'')"
    by (simp add: example_aws_def example_lambda_def)
  have "\<forall>q t' op e.
          deployToRegion ?aws example_readJsonSync example_program example_params ''us-east-1'' 0 = Inr q
          \<and> (t', event_source_call op) \<in> set (calls q)
          \<and> snd (event_source_reply (NewLambda ?aws ''us-east-1'') op) = Inl e \<longrightarrow>
          (\<exists>e'. outcome q = Inl e')"
    using binding_operations_concurrent[of "''f''" example_existing example_desired ?bad 0
        ?aws example_readJsonSync example_program example_params "''us-east-1''" 0]
    by blast
  then have "\<exists>e'. outcome ?q = Inl e'" using q m f by blast
  then have reg: "\<exists>q. deployToRegion ?aws example_readJsonSync example_program example_params
                       ''us-east-1'' 0 = Inr q
                   \<and> (2, event_source_call (OpDelete ''u2'')) \<in> set (calls q)
                   \<and> (\<exists>e'. outcome q = Inl e')"
    using q m by blast
  show ?thesis using ops r c o reg by blast
qed

section \<open>All regions\<close>

lemma deploy_regions_started:
  assumes src: "eventSourceList rd prog = Inr sources"
  shows "\<exists>qs. deploy_regions aws rd prog ps t regions = (qs, None)
           \<and> length qs = length regions
           \<and> (\<forall>i < length regions. deployToRegion aws rd prog ps (regions ! i) t = Inr (qs ! i))"
proof (induction regions)
  case Nil
  then show ?case by simp
next
  case (Cons rgn regions)
  then obtain qs where qs: "deploy_regions aws rd prog ps t regions = (qs, None)"
    "length qs = length regions"
    "\<forall>i < length regions. deployToRegion aws rd prog ps (regions ! i) t = Inr (qs ! i)"
    by blast
  obtain q where q: "deployToRegion aws rd prog ps rgn t = Inr q"
    using src by (simp add: deployToRegion_def)
  have "deploy_regions aws rd prog ps t (rgn # regions) = (q # qs, None)"
    using q qs(1) by simp
  moreover have "\<forall>i < length (rgn # regions).
      deployToRegion aws rd prog ps ((rgn # regions) ! i) t = Inr ((q # qs) ! i)"
    using q qs(3) by (auto simp: nth_Cons split: nat.splits)
  ultimately show ?case using qs(2) by auto
qed

lemma split_not_Nil: "split c s \<noteq> []"
  by (induction s) (auto split: list.splits)

lemma deploy_regions_thrown:
  assumes "eventSourceList rd prog = Inl err" and "regions \<noteq> []"
  shows "deploy_regions aws rd prog ps t regions = ([], Some err)"
proof -
  obtain rgn rest where r: "regions = rgn # rest" using assms(2) by (cases regions) auto
  have "deployToRegion aws rd prog ps rgn t = Inl err"
    using assms(1) by (simp add: deployToRegion_def)
  then show ?thesis by (simp add: r)
qed

lemma deploy_thrown:
  "deploy aws rd dc (Inl err) prog t = \<lparr> issued = [], console = Thrown err \<rparr>"
  "params dc prog buffer = Inl err \<Longrightarrow>
     deploy aws rd dc (Inr buffer) prog t = \<lparr> issued = [], console = Thrown err \<rparr>"
  "params dc prog buffer = Inr ps \<Longrightarrow> eventSourceList rd prog = Inl err \<Longrightarrow>
     deploy aws rd dc (Inr buffer) prog t = \<lparr> issued = [], console = Thrown err \<rparr>"
proof -
  show "deploy aws rd dc (Inl err) prog t = \<lparr> issued = [], console = Thrown err \<rparr>"
    by (simp add: deploy_def)
  show "params dc prog buffer = Inl err \<Longrightarrow>
     deploy aws rd dc (Inr buffer) prog t = \<lparr> issued = [], console = Thrown err \<rparr>"
    by (simp add: deploy_def)
  show "params dc prog buffer = Inr ps \<Longrightarrow> eventSourceList rd prog = Inl err \<Longrightarrow>
     deploy aws rd dc (Inr buffer) prog t = \<lparr> issued = [], console = Thrown err \<rparr>"
    using deploy_regions_thrown[where regions = "split CHR '','' (region prog)" and aws = aws
        and ps = ps and t = t and rd = rd and prog = prog and err = err, OF _ split_not_Nil]
    by (simp add: deploy_def Let_def calls_by_region_def)
qed

lemma deploy_started:
  assumes ps: "params dc prog buffer = Inr ps" and src: "eventSourceList rd prog = Inr sources"
  shows "\<exists>qs. length qs = length (split CHR '','' (region prog))
           \<and> (\<forall>i < length (split CHR '','' (region prog)).
                 deployToRegion aws rd prog ps (split CHR '','' (region prog) ! i) t = Inr (qs ! i))
           \<and> deploy aws rd dc (Inr buffer) prog t =
               \<lparr> issued = calls_by_region (split CHR '','' (region prog)) qs,
                 console = (case outcome (promise_all t qs) of
                              Inl err \<Rightarrow> LoggedError err
                            | Inr results \<Rightarrow>
                                if resultsIsEmpty results then Silent else AllTasksDone results) \<rparr>"
proof -
  let ?regions = "split CHR '','' (region prog)"
  obtain qs where qs: "deploy_regions aws rd prog ps t ?regions = (qs, None)"
    "length qs = length ?regions"
    "\<forall>i < length ?regions. deployToRegion aws rd prog ps (?regions ! i) t = Inr (qs ! i)"
    using deploy_regions_started[OF src, of aws ps t ?regions] by blast
  have "deploy aws rd dc (Inr buffer) prog t =
      \<lparr> issued = calls_by_region ?regions qs,
        console = (case outcome (promise_all t qs) of
                     Inl err \<Rightarrow> LoggedError err
                   | Inr results \<Rightarrow> if resultsIsEmpty results then Silent else AllTasksDone results) \<rparr>"
    using ps qs(1) by (simp add: deploy_def Let_def)
  then show ?thesis using qs(2,3) by blast
qed

lemma deploy_all_regions:
  assumes ps: "params dc prog buffer = Inr ps" and src: "eventSourceList rd prog = Inr sources"
  shows "\<exists>qs. length qs = length (split CHR '','' (region prog))
       \<and> (\<forall>i < length (split CHR '','' (region prog)).
             deployToRegion aws rd prog ps (split CHR '','' (region prog) ! i) t = Inr (qs ! i))
       \<and> issued (deploy aws rd dc (Inr buffer) prog t)
           = calls_by_region (split CHR '','' (region prog)) qs
       \<and> ((\<forall>q \<in> set qs. \<exists>v. outcome q = Inr v) \<longrightarrow>
            (\<exists>results. length results = length (split CHR '','' (region prog))
               \<and> (\<forall>i < length (split CHR '','' (region prog)). outcome (qs ! i) = Inr (results ! i))
               \<and> console (deploy aws rd dc (Inr buffer) prog t)
                   = (if resultsIsEmpty results then Silent else AllTasksDone results)))
       \<and> ((\<exists>q \<in> set qs. \<exists>e. outcome q = Inl e) \<longrightarrow>
            (\<exists>q \<in> set qs. \<exists>e. outcome q = Inl e
               \<and> console (deploy aws rd dc (Inr buffer) prog t) = LoggedError e
               \<and> (\<forall>q' \<in> set qs. (\<exists>e'. outcome q' = Inl e') \<longrightarrow> settled q \<le> settled q')))"
proof -
  let ?regions = "split CHR '','' (region prog)"
  let ?run = "deploy aws rd dc (Inr buffer) prog t"
  from deploy_started[OF ps src, of aws t]
  obtain qs where qs: "length qs = length ?regions"
    "\<forall>i < length ?regions. deployToRegion aws rd prog ps (?regions ! i) t = Inr (qs ! i)"
    and run: "?run =
      \<lparr> issued = calls_by_region ?regions qs,
        console = (case outcome (promise_all t qs) of
                     Inl err \<Rightarrow> LoggedError err
                   | Inr results \<Rightarrow> if resultsIsEmpty results then Silent else AllTasksDone results) \<rparr>"
    by blast
  have ok: "(\<forall>q \<in> set qs. \<exists>v. outcome q = Inr v) \<Longrightarrow>
      (\<exists>results. length results = length ?regions
          \<and> (\<forall>i < length ?regions. outcome (qs ! i) = Inr (results ! i))
          \<and> console ?run = (if resultsIsEmpty results then Silent else AllTasksDone results))"
  proof -
    assume all: "\<forall>q \<in> set qs. \<exists>v. outcome q = Inr v"
    from fulfilled_values_all[OF all] promise_all_fulfilled[OF all, of t] qs(1)
    show ?thesis unfolding run by (intro exI[of _ "fulfilled_values qs"]) simp
  qed
  have bad: "(\<exists>q \<in> set qs. \<exists>e. outcome q = Inl e) \<Longrightarrow>
      (\<exists>q \<in> set qs. \<exists>e. outcome q = Inl e \<and> console ?run = LoggedError e
          \<and> (\<forall>q' \<in> set qs. (\<exists>e'. outcome q' = Inl e') \<longrightarrow> settled q \<le> settled q'))"
  proof -
    assume "\<exists>q \<in> set qs. \<exists>e. outcome q = Inl e"
    from promise_all_rejected[OF this, of t] obtain q e where
      "q \<in> set qs" "outcome q = Inl e" "outcome (promise_all t qs) = Inl e"
      "\<forall>q' \<in> set qs. (\<exists>e'. outcome q' = Inl e') \<longrightarrow> settled q \<le> settled q'"
      by blast
    then show ?thesis unfolding run by auto
  qed
  have iss: "issued ?run = calls_by_region ?regions qs" by (simp add: run)
  show ?thesis using qs iss ok bad by blast
qed

text \<open>
  C1, as stated, fails. With two regions, the function existing in the first and
  its creation refused in the second, all that \<open>deploy\<close> leaves on the console is the
  error of the second region: there is no result per region, and the results of the
  first region are lost.
\<close>

theorem deploy_counterexample:
  "split CHR '','' (region example_program) = [''us-east-1'', ''eu-west-1'']
   \<and> console (deploy
        (example_aws\<lparr> NewLambda := (\<lambda>r. if r = ''eu-west-1''
            then example_lambda\<lparr> getFunction := (\<lambda>_. (1, Inl (Error ''ResourceNotFoundException''))),
                                 createFunction := (\<lambda>_. (2, Inl (Error ''AccessDeniedException''))) \<rparr>
            else example_lambda) \<rparr>)
        example_readJsonSync example_dotenv (Inr ''PK'') example_program 0)
     = LoggedError (Error ''AccessDeniedException'')"
  by code_simp

text \<open>
  C1, amended. For every \<open>deploy\<close> over a list of regions:
  \<^item> when the archive cannot be built, or the function parameters cannot be made
    (the config file cannot be read), or the event source file cannot be loaded,
    \<open>deploy\<close> throws that error and no call is issued in any region;
  \<^item> otherwise \<open>deploy\<close> starts one reconciliation per region of the list, and the
    calls issued are, region by region, the calls of that region's own
    reconciliation: whatever happens in a region, the others run to their end, and
    nothing is rolled back. If every region is fulfilled, the console shows one
    result per region, in the order of the regions (or nothing, when all results are
    empty). If some region is rejected, the console shows the error of the region
    rejected first, and no result of any region.
\<close>

theorem deploy_aggregation:
  "(let regions = split CHR '','' (region prog);
        run = deploy aws rd dc archive prog t
    in (\<forall>err. archive = Inl err \<longrightarrow> run = \<lparr> issued = [], console = Thrown err \<rparr>)
     \<and> (\<forall>buffer err. archive = Inr buffer \<and> params dc prog buffer = Inl err \<longrightarrow>
           run = \<lparr> issued = [], console = Thrown err \<rparr>)
     \<and> (\<forall>buffer ps err. archive = Inr buffer \<and> params dc prog buffer = Inr ps
             \<and> eventSourceList rd prog = Inl err \<longrightarrow>
           run = \<lparr> issued = [], console = Thrown err \<rparr>)
     \<and> (\<forall>buffer ps sources. archive = Inr buffer \<and> params dc prog buffer = Inr ps
             \<and> eventSourceList rd prog = Inr sources \<longrightarrow>
           (\<exists>qs. length qs = length regions
               \<and> (\<forall>i < length regions.
                     deployToRegion aws rd prog ps (regions ! i) t = Inr (qs ! i))
               \<and> issued run = calls_by_region regions qs
               \<and> ((\<forall>q \<in> set qs. \<exists>v. outcome q = Inr v) \<longrightarrow>
                    (\<exists>results. length results = length regions
                       \<and> (\<forall>i < length regions. outcome (qs ! i) = Inr (results ! i))
                       \<and> console run = (if resultsIsEmpty results then Silent
                                         else AllTasksDone results)))
               \<and> ((\<exists>q \<in> set qs. \<exists>e. outcome q = Inl e) \<longrightarrow>
                    (\<exists>q \<in> set qs. \<exists>e. outcome q = Inl e \<and> console run = LoggedError e
                       \<and> (\<forall>q' \<in> set qs. (\<exists>e'. outcome q' = Inl e') \<longrightarrow>
                             settled q \<le> settled q'))))))"
proof -
  have 1: "\<forall>err. archive = Inl err \<longrightarrow>
      deploy aws rd dc archive prog t = \<lparr> issued = [], console = Thrown err \<rparr>"
    using deploy_thrown(1) by blast
  have 2: "\<forall>buffer err. archive = Inr buffer \<and> params dc prog buffer = Inl err \<longrightarrow>
      deploy aws rd dc archive prog t = \<lparr> issued = [], console = Thrown err \<rparr>"
    using deploy_thrown(2) by blast
  have 3: "\<forall>buffer ps err. archive = Inr buffer \<and> params dc prog buffer = Inr ps
             \<and> eventSourceList rd prog = Inl err \<longrightarrow>
      deploy aws rd dc archive prog t = \<lparr> issued = [], console = Thrown err \<rparr>"
    using deploy_thrown(3) by blast
  have 4: "\<forall>buffer ps sources. archive = Inr buffer \<and> params dc prog buffer = Inr ps
             \<and> eventSourceList rd prog = Inr sources \<longrightarrow>
           (\<exists>qs. length qs = length (split CHR '','' (region prog))
               \<and> (\<forall>i < length (split CHR '','' (region prog)).
                     deployToRegion aws rd prog ps (split CHR '','' (region prog) ! i) t = Inr (qs ! i))
               \<and> issued (deploy aws rd dc archive prog t)
                   = calls_by_region (split CHR '','' (region prog)) qs
               \<and> ((\<forall>q \<in> set qs. \<exists>v. outcome q = Inr v) \<longrightarrow>
                    (\<exists>results. length results = length (split CHR '','' (region prog))
                       \<and> (\<forall>i < length (split CHR '','' (region prog)).
                             outcome (qs ! i) = Inr (results ! i))
                       \<and> console (deploy aws rd dc archive prog t)
                           = (if resultsIsEmpty results then Silent else AllTasksDone results)))
               \<and> ((\<exists>q \<in> set qs. \<exists>e. outcome q = Inl e) \<longrightarrow>
                    (\<exists>q \<in> set qs. \<exists>e. outcome q = Inl e
                       \<and> console (deploy aws rd dc archive prog t) = LoggedError e
                       \<and> (\<forall>q' \<in> set qs. (\<exists>e'. outcome q' = Inl e') \<longrightarrow>
                             settled q \<le> settled q'))))"
  proof (intro allI impI, elim conjE)
    fix buffer ps sources
    assume a: "archive = Inr buffer" and ps: "params dc prog buffer = Inr ps"
      and src: "eventSourceList rd prog = Inr sources"
    show "\<exists>qs. length qs = length (split CHR '','' (region prog))
               \<and> (\<forall>i < length (split CHR '','' (region prog)).
                     deployToRegion aws rd prog ps (split CHR '','' (region prog) ! i) t = Inr (qs ! i))
               \<and> issued (deploy aws rd dc archive prog t)
                   = calls_by_region (split CHR '','' (region prog)) qs
               \<and> ((\<forall>q \<in> set qs. \<exists>v. outcome q = Inr v) \<longrightarrow>
                    (\<exists>results. length results = length (split CHR '','' (region prog))
                       \<and> (\<forall>i < length (split CHR '','' (region prog)).
                             outcome (qs ! i) = Inr (results ! i))
                       \<and> console (deploy aws rd dc archive prog t)
                           = (if resultsIsEmpty results then Silent else AllTasksDone results)))
               \<and> ((\<exists>q \<in> set qs. \<exists>e. outcome q = Inl e) \<longrightarrow>
                    (\<exists>q \<in> set qs. \<exists>e. outcome q = Inl e
                       \<and> console (deploy aws rd dc archive prog t) = LoggedError e
                       \<and> (\<forall>q' \<in> set qs. (\<exists>e'. outcome q' = Inl e') \<longrightarrow>
                             settled q \<le> settled q')))"
      unfolding a by (rule deploy_all_regions[OF ps src])
  qed
  show ?thesis
    unfolding Let_def by (intro conjI) (rule 1, rule 2, rule 3, rule 4)
qed

theorem deploy_aggregation_witness:
  "params example_dotenv example_program ''PK'' = Inr example_params
   \<and> eventSourceList example_readJsonSync example_program
       = Inr \<lparr> EventSourceMappings = Some example_desired, ScheduleEvents = Some [] \<rparr>
   \<and> (\<exists>qs :: task_results list promise list. length qs = 2
         \<and> issued (deploy example_aws example_readJsonSync example_dotenv (Inr ''PK'') example_program 0)
             = calls_by_region [''us-east-1'', ''eu-west-1''] qs)
   \<and> console (deploy example_aws example_readJsonSync example_dotenv (Inr ''PK'') example_program 0)
       = AllTasksDone
           [[ScheduleResults [], EventSourceResults [''updated'', ''deleted'']],
            [ScheduleResults [], EventSourceResults [''updated'', ''deleted'']]]
   \<and> console (deploy
        (example_aws\<lparr> NewLambda := (\<lambda>r. if r = ''eu-west-1''
            then example_lambda\<lparr> getFunction := (\<lambda>_. (1, Inl (Error ''ResourceNotFoundException''))),
                                 createFunction := (\<lambda>_. (2, Inl (Error ''AccessDeniedException''))) \<rparr>
            else example_lambda) \<rparr>)
        example_readJsonSync example_dotenv (Inr ''PK'') example_program 0)
     = LoggedError (Error ''AccessDeniedException'')
   \<and> params example_dotenv (example_program\<lparr> configFile := Some ''deploy.env'' \<rparr>) ''PK''
       = Inl (Error ''ENOENT'')
   \<and> deploy example_aws example_readJsonSync example_dotenv (Inr ''PK'')
        (example_program\<lparr> configFile := Some ''deploy.env'' \<rparr>) 0
       = \<lparr> issued = [], console = Thrown (Error ''ENOENT'') \<rparr>
   \<and> deploy example_aws example_readJsonSync example_dotenv (Inl (Error ''npm install failed''))
        example_program 0
       = \<lparr> issued = [], console = Thrown (Error ''npm install failed'') \<rparr>
   \<and> eventSourceList example_readJsonSync (example_program\<lparr> eventSourceFile := Some ''missing.json'' \<rparr>)
       = Inl (Error ''ENOENT'')
   \<and> deploy example_aws example_readJsonSync example_dotenv (Inr ''PK'')
        (example_program\<lparr> eventSourceFile := Some ''missing.json'' \<rparr>) 0
       = \<lparr> issued = [], console = Thrown (Error ''ENOENT'') \<rparr>"
proof -
  let ?noconf = "example_program\<lparr> configFile := Some ''deploy.env'' \<rparr>"
  let ?nosrc = "example_program\<lparr> eventSourceFile := Some ''missing.json'' \<rparr>"
  have ps: "params example_dotenv example_program ''PK'' = Inr example_params"
    by code_simp
  have src: "eventSourceList example_readJsonSync example_program
       = Inr \<lparr> EventSourceMappings = Some example_desired, ScheduleEvents = Some [] \<rparr>"
    by code_simp
  have regions: "split CHR '','' (region example_program) = [''us-east-1'', ''eu-west-1'']"
    by code_simp
  note T = deploy_aggregation[of example_program example_aws example_readJsonSync example_dotenv
      "Inr ''PK''" 0]
  have started: "\<exists>qs :: task_results list promise list. length qs = 2
         \<and> issued (deploy example_aws example_readJsonSync example_dotenv (Inr ''PK'') example_program 0)
             = calls_by_region [''us-east-1'', ''eu-west-1''] qs"
  proof -
    have "Inr ''PK'' = (Inr ''PK'' :: error + string)
            \<and> params example_dotenv example_program ''PK'' = Inr example_params
            \<and> eventSourceList example_readJsonSync example_program
                 = Inr \<lparr> EventSourceMappings = Some example_desired, ScheduleEvents = Some [] \<rparr>"
      using ps src by simp
    from T[unfolded Let_def regions, THEN conjunct2, THEN conjunct2, THEN conjunct2,
        rule_format, OF this]
    obtain qs :: "task_results list promise list"
      where "length qs = length [''us-east-1'', ''eu-west-1'']"
      "issued (deploy example_aws example_readJsonSync example_dotenv (Inr ''PK'') example_program 0)
         = calls_by_region [''us-east-1'', ''eu-west-1''] qs"
      by (elim exE conjE)
    then show ?thesis by (intro exI[of _ qs]) simp
  qed
  have c: "console (deploy example_aws example_readJsonSync example_dotenv (Inr ''PK'') example_program 0)
       = AllTasksDone
           [[ScheduleResults [], EventSourceResults [''updated'', ''deleted'']],
            [ScheduleResults [], EventSourceResults [''updated'', ''deleted'']]]"
    "console (deploy
        (example_aws\<lparr> NewLambda := (\<lambda>r. if r = ''eu-west-1''
            then example_lambda\<lparr> getFunction := (\<lambda>_. (1, Inl (Error ''ResourceNotFoundException''))),
                                 createFunction := (\<lambda>_. (2, Inl (Error ''AccessDeniedException''))) \<rparr>
            else example_lambda) \<rparr>)
        example_readJsonSync example_dotenv (Inr ''PK'') example_program 0)
     = LoggedError (Error ''AccessDeniedException'')"
    by code_simp+
  have nops: "params example_dotenv ?noconf ''PK'' = Inl (Error ''ENOENT'')"
    by code_simp
  have t1: "deploy example_aws example_readJsonSync example_dotenv (Inr ''PK'') ?noconf 0
       = \<lparr> issued = [], console = Thrown (Error ''ENOENT'') \<rparr>"
    using deploy_aggregation[of ?noconf example_aws example_readJsonSync example_dotenv
      "Inr ''PK''" 0, unfolded Let_def, THEN conjunct2, THEN conjunct1, rule_format,
      of "''PK''" "Error ''ENOENT''"] nops
    by simp
  have t2: "deploy example_aws example_readJsonSync example_dotenv (Inl (Error ''npm install failed''))
        example_program 0
       = \<lparr> issued = [], console = Thrown (Error ''npm install failed'') \<rparr>"
    using deploy_aggregation[of example_program example_aws example_readJsonSync example_dotenv
      "Inl (Error ''npm install failed'')" 0, unfolded Let_def, THEN conjunct1, rule_format,
      of "Error ''npm install failed''"]
    by simp
  have nosrc: "eventSourceList example_readJsonSync ?nosrc = Inl (Error ''ENOENT'')"
    "params example_dotenv ?nosrc ''PK'' = Inr example_params"
    by code_simp+
  have t3: "deploy example_aws example_readJsonSync example_dotenv (Inr ''PK'') ?nosrc 0
       = \<lparr> issued = [], console = Thrown (Error ''ENOENT'') \<rparr>"
    using deploy_aggregation[of ?nosrc example_aws example_readJsonSync example_dotenv
      "Inr ''PK''" 0, unfolded Let_def, THEN conjunct2, THEN conjunct2, THEN conjunct1,
      rule_format, of "''PK''" example_params "Error ''ENOENT''"] nosrc
    by simp
  show ?thesis using ps src started c nops t1 t2 nosrc(1) t3 by blast
qed

section \<open>The check of the runtime\<close>

lemma run_unsupported:
  "runtime prog \<notin> set [''nodejs4.3'', ''nodejs6.10''] \<Longrightarrow>
     run event prog
       = [ConsoleError (''Runtime ['' @ runtime prog @ ''] is not supported.''), ProcessExit 254]"
  by (simp add: run_def)

lemma params_Runtime: "params dc prog buffer = Inr ps \<Longrightarrow> Runtime ps = runtime prog"
  by (auto simp: params_def Let_def split: option.splits if_splits sum.splits)

lemma params_made:
  assumes "\<forall>f. configFile prog = Some f \<and> f \<noteq> [] \<longrightarrow> (\<exists>config. dc f = Inr config)"
  shows "\<exists>ps. params dc prog buffer = Inr ps"
proof (cases "configFile prog")
  case None
  then show ?thesis by (simp add: params_def Let_def)
next
  case (Some f)
  show ?thesis
  proof (cases "f = []")
    case True
    then show ?thesis using Some by (simp add: params_def Let_def)
  next
    case False
    then obtain config where "dc f = Inr config" using assms Some by blast
    then show ?thesis using Some False by (simp add: params_def Let_def)
  qed
qed

lemma eventSourceList_loaded:
  assumes "\<forall>file. eventSourceFile prog = Some file \<and> file \<noteq> [] \<longrightarrow> (\<exists>doc. rd file = Inr doc)"
  shows "\<exists>sources. eventSourceList rd prog = Inr sources"
proof (cases "eventSourceFile prog")
  case None
  then show ?thesis by (simp add: eventSourceList_def)
next
  case (Some name)
  show ?thesis
  proof (cases "name = []")
    case True
    then show ?thesis using Some by (simp add: eventSourceList_def)
  next
    case False
    then obtain doc where "rd name = Inr doc" using assms Some by blast
    then show ?thesis using Some False by (cases doc) (simp_all add: eventSourceList_def)
  qed
qed

lemma region_probe_issued:
  "deployToRegion aws rd prog ps rgn t = Inr q \<Longrightarrow> (t, GetFunction (FunctionName ps)) \<in> set (calls q)"
  by (auto simp: deployToRegion_def Let_def after_call_def split: sum.splits)

lemma calls_uploadExisting_exact:
  "(t', c) \<in> set (calls (uploadExisting lambda ps t)) \<Longrightarrow>
     c = UpdateFunctionCode (FunctionName ps) (ZipFile ps) (Publish ps)
     \<or> c = UpdateFunctionConfiguration (function_configuration.truncate ps)"
  by (auto simp: uploadExisting_def Let_def split: sum.splits)

lemma calls_upload_then_schedule_exact:
  assumes "(t', c) \<in> set (calls (promise_then (uploadExisting lambda ps t)
             (\<lambda>t3 results. updateScheduleEvents se (FunctionArn results) sl t3)))"
  shows "c = UpdateFunctionCode (FunctionName ps) (ZipFile ps) (Publish ps)
         \<or> c = UpdateFunctionConfiguration (function_configuration.truncate ps)
         \<or> (\<exists>s. c = ScheduleEventsAdd s)"
  using assms calls_uploadExisting_exact[of t' c lambda ps t]
    calls_updateScheduleEvents_kind[of t' c se _ sl]
  by (auto simp: promise_then_def Let_def split: sum.splits)

lemma region_calls_carry_params:
  assumes q: "deployToRegion aws rd prog ps rgn t = Inr q"
    and c: "(t', c) \<in> set (calls q)"
  shows "(\<forall>p'. c = CreateFunction p' \<longrightarrow> p' = ps)
       \<and> (\<forall>conf. c = UpdateFunctionConfiguration conf \<longrightarrow> conf = function_configuration.truncate ps)"
proof -
  let ?lambda = "NewLambda aws rgn" and ?name = "FunctionName ps"
  let ?se = "NewScheduleEvents aws rgn"
  let ?probe = "getFunction ?lambda ?name"
  let ?t1 = "t + fst ?probe"
  obtain sources where src: "eventSourceList rd prog = Inr sources"
    using q by (cases "eventSourceList rd prog") (simp_all add: deployToRegion_def)
  show ?thesis
  proof (cases "snd ?probe")
    case (Inl err)
    show ?thesis
    proof (cases "snd (createFunction ?lambda ps)")
      case e: (Inl e)
      show ?thesis using q c unfolding region_create_failed[OF src Inl e] by auto
    next
      case r: (Inr results)
      let ?t2 = "?t1 + fst (createFunction ?lambda ps)"
      have qeq: "calls q = (t, GetFunction ?name) # (?t1, CreateFunction ps)
                          # calls (create_path_bindings ?lambda ?se ?name sources ?t2 results)"
        using q unfolding region_created[OF src Inl r] Let_def by auto
      show ?thesis
        using c calls_updateScheduleEvents_kind[of t' c ?se _ "ScheduleEvents sources" ?t2]
          calls_updateEventSources_kind[of t' c ?lambda ?name "[]" "EventSourceMappings sources" ?t2]
        by (auto simp: qeq calls_create_path not_binding_call[THEN not_sym])
    qed
  next
    case (Inr u)
    obtain t2 res where l: "listEventSourceMappings_cb ?lambda ?name ?t1 = (t2, res)"
      by (cases "listEventSourceMappings_cb ?lambda ?name ?t1")
    show ?thesis
    proof (cases res)
      case e: (Inl e)
      show ?thesis using q c unfolding region_list_failed[OF src Inr l[unfolded e]] by auto
    next
      case x: (Inr existing)
      have qeq: "calls q = (t, GetFunction ?name) # (?t1, ListEventSourceMappings ?name)
                          # calls (update_path_bindings ?lambda ?se ps sources t2 existing)"
        using q unfolding region_updated[OF src Inr l[unfolded x]] Let_def by auto
      show ?thesis
        using c calls_upload_then_schedule_exact[of t' c ?lambda ps t2 ?se "ScheduleEvents sources"]
          calls_updateEventSources_kind[of t' c ?lambda ?name existing "EventSourceMappings sources" t2]
        by (auto simp: qeq calls_update_path not_binding_call[THEN not_sym])
    qed
  qed
qed

lemma calls_by_region_member:
  assumes "i < length regions" "length qs = length regions" "c \<in> set (calls (qs ! i))"
  shows "(regions ! i, c) \<in> set (calls_by_region regions qs)"
proof -
  have "(regions ! i, qs ! i) \<in> set (zip regions qs)"
    using assms(1,2) by (auto simp: in_set_zip)
  then show ?thesis using assms(3) unfolding calls_by_region_def by force
qed

lemma calls_by_region_origin:
  assumes "(rgn, c) \<in> set (calls_by_region regions qs)"
  shows "\<exists>i. i < length regions \<and> i < length qs \<and> rgn = regions ! i \<and> c \<in> set (calls (qs ! i))"
  using assms unfolding calls_by_region_def by (auto simp: in_set_zip)

lemma deploy_forwards_runtime:
  assumes conf: "\<forall>f. configFile prog = Some f \<and> f \<noteq> [] \<longrightarrow> (\<exists>config. dc f = Inr config)"
    and readable: "\<forall>file. eventSourceFile prog = Some file \<and> file \<noteq> [] \<longrightarrow> (\<exists>doc. rd file = Inr doc)"
  shows "\<exists>ps. params dc prog buffer = Inr ps \<and> Runtime ps = runtime prog
           \<and> (\<forall>rgn \<in> set (split CHR '','' (region prog)).
                 (rgn, t, GetFunction (FunctionName ps))
                   \<in> set (issued (deploy aws rd dc (Inr buffer) prog t)))
           \<and> (\<forall>(rgn, t', c) \<in> set (issued (deploy aws rd dc (Inr buffer) prog t)).
                 (\<forall>p'. c = CreateFunction p' \<longrightarrow> Runtime p' = runtime prog)
               \<and> (\<forall>conf. c = UpdateFunctionConfiguration conf \<longrightarrow> Runtime conf = runtime prog))
           \<and> (\<forall>err. console (deploy aws rd dc (Inr buffer) prog t) \<noteq> Thrown err)"
proof -
  let ?regions = "split CHR '','' (region prog)"
  let ?run = "deploy aws rd dc (Inr buffer) prog t"
  obtain ps where ps: "params dc prog buffer = Inr ps"
    using params_made[OF conf] by blast
  obtain sources where src: "eventSourceList rd prog = Inr sources"
    using eventSourceList_loaded[OF readable] by blast
  have rt: "Runtime ps = runtime prog" using ps by (rule params_Runtime)
  from deploy_started[OF ps src, of aws t]
  obtain qs where qs: "length qs = length ?regions"
    "\<forall>i < length ?regions. deployToRegion aws rd prog ps (?regions ! i) t = Inr (qs ! i)"
    and run: "?run =
      \<lparr> issued = calls_by_region ?regions qs,
        console = (case outcome (promise_all t qs) of
                     Inl err \<Rightarrow> LoggedError err
                   | Inr results \<Rightarrow> if resultsIsEmpty results then Silent else AllTasksDone results) \<rparr>"
    by blast
  have probe: "\<forall>rgn \<in> set ?regions. (rgn, t, GetFunction (FunctionName ps)) \<in> set (issued ?run)"
  proof
    fix rgn assume "rgn \<in> set ?regions"
    then obtain i where i: "i < length ?regions" "rgn = ?regions ! i"
      by (auto simp: in_set_conv_nth)
    have "(t, GetFunction (FunctionName ps)) \<in> set (calls (qs ! i))"
      using qs(2) i(1) region_probe_issued by blast
    from calls_by_region_member[OF i(1) qs(1) this]
    show "(rgn, t, GetFunction (FunctionName ps)) \<in> set (issued ?run)"
      by (simp add: run i(2))
  qed
  have carried: "\<forall>(rgn, t', c) \<in> set (issued ?run).
                 (\<forall>p'. c = CreateFunction p' \<longrightarrow> Runtime p' = runtime prog)
               \<and> (\<forall>conf. c = UpdateFunctionConfiguration conf \<longrightarrow> Runtime conf = runtime prog)"
  proof (intro ballI, clarify)
    fix rgn t' c
    assume "(rgn, t', c) \<in> set (issued ?run)"
    then have "(rgn, (t', c)) \<in> set (calls_by_region ?regions qs)" by (simp add: run)
    from calls_by_region_origin[OF this]
    obtain i where i: "i < length ?regions" "(t', c) \<in> set (calls (qs ! i))" by blast
    have "deployToRegion aws rd prog ps (?regions ! i) t = Inr (qs ! i)" using qs(2) i(1) by blast
    from region_calls_carry_params[OF this i(2)]
    show "(\<forall>p'. c = CreateFunction p' \<longrightarrow> Runtime p' = runtime prog)
        \<and> (\<forall>conf. c = UpdateFunctionConfiguration conf \<longrightarrow> Runtime conf = runtime prog)"
      using rt by (auto simp: function_configuration.truncate_def)
  qed
  have nothrow: "\<forall>err. console ?run \<noteq> Thrown err"
    by (simp add: run split: sum.splits)
  show ?thesis using ps rt probe carried nothrow by blast
qed

text \<open>
  C6, as stated, fails for \<open>deploy\<close>: with a runtime that is not in the list of \<open>run\<close>,
  \<open>deploy\<close> calls the platform, sends it the runtime as it is, and ends with the
  results of both regions.
\<close>

theorem runtime_counterexample:
  "runtime (example_program\<lparr> runtime := ''python2.7'' \<rparr>) \<notin> set [''nodejs4.3'', ''nodejs6.10'']
   \<and> (''us-east-1'', 0, GetFunction ''f'')
       \<in> set (issued (deploy example_aws example_readJsonSync example_dotenv (Inr ''PK'')
                        (example_program\<lparr> runtime := ''python2.7'' \<rparr>) 0))
   \<and> (''us-east-1'', 5,
        UpdateFunctionConfiguration
          (function_configuration.truncate (example_params\<lparr> Runtime := ''python2.7'' \<rparr>)))
       \<in> set (issued (deploy example_aws example_readJsonSync example_dotenv (Inr ''PK'')
                        (example_program\<lparr> runtime := ''python2.7'' \<rparr>) 0))
   \<and> console (deploy example_aws example_readJsonSync example_dotenv (Inr ''PK'')
                 (example_program\<lparr> runtime := ''python2.7'' \<rparr>) 0)
       = AllTasksDone
           [[ScheduleResults [], EventSourceResults [''updated'', ''deleted'']],
            [ScheduleResults [], EventSourceResults [''updated'', ''deleted'']]]"
  by code_simp

text \<open>
  C6, amended. For every \<open>run\<close> whose runtime is neither \<open>nodejs4.3\<close> nor \<open>nodejs6.10\<close>,
  the message is printed and the process exits with code 254, before any file is
  written, any module is loaded and any process is started. \<open>deploy\<close> does not check
  the runtime. Whatever the runtime is, when the archive is built and the config
  file and the event source file (if the options name them) can be read, \<open>deploy\<close>
  makes the function parameters with the runtime of the options unchanged, throws
  nothing, issues the probe \<open>getFunction\<close> in every region of the list, and every
  \<open>createFunction\<close> and \<open>updateFunctionConfiguration\<close> that it issues carries that
  runtime. And whenever \<open>_params\<close> returns, its \<open>Runtime\<close> is the runtime of the options.
\<close>

theorem runtime_validation:
  "(runtime prog \<notin> set [''nodejs4.3'', ''nodejs6.10''] \<longrightarrow>
      run event prog
        = [ConsoleError (''Runtime ['' @ runtime prog @ ''] is not supported.''), ProcessExit 254])
   \<and> (\<forall>ps. params dc prog buffer = Inr ps \<longrightarrow> Runtime ps = runtime prog)
   \<and> ((\<forall>f. configFile prog = Some f \<and> f \<noteq> [] \<longrightarrow> (\<exists>config. dc f = Inr config))
       \<and> (\<forall>file. eventSourceFile prog = Some file \<and> file \<noteq> [] \<longrightarrow> (\<exists>doc. rd file = Inr doc)) \<longrightarrow>
      (\<exists>ps. params dc prog buffer = Inr ps \<and> Runtime ps = runtime prog
         \<and> (\<forall>rgn \<in> set (split CHR '','' (region prog)).
               (rgn, t, GetFunction (FunctionName ps))
                 \<in> set (issued (deploy aws rd dc (Inr buffer) prog t)))
         \<and> (\<forall>(rgn, t', c) \<in> set (issued (deploy aws rd dc (Inr buffer) prog t)).
               (\<forall>p'. c = CreateFunction p' \<longrightarrow> Runtime p' = runtime prog)
             \<and> (\<forall>conf. c = UpdateFunctionConfiguration conf \<longrightarrow> Runtime conf = runtime prog))
         \<and> (\<forall>err. console (deploy aws rd dc (Inr buffer) prog t) \<noteq> Thrown err)))"
proof (intro conjI)
  show "runtime prog \<notin> set [''nodejs4.3'', ''nodejs6.10''] \<longrightarrow>
      run event prog
        = [ConsoleError (''Runtime ['' @ runtime prog @ ''] is not supported.''), ProcessExit 254]"
    using run_unsupported by blast
  show "\<forall>ps. params dc prog buffer = Inr ps \<longrightarrow> Runtime ps = runtime prog"
    using params_Runtime by blast
  show "(\<forall>f. configFile prog = Some f \<and> f \<noteq> [] \<longrightarrow> (\<exists>config. dc f = Inr config))
       \<and> (\<forall>file. eventSourceFile prog = Some file \<and> file \<noteq> [] \<longrightarrow> (\<exists>doc. rd file = Inr doc)) \<longrightarrow>
      (\<exists>ps. params dc prog buffer = Inr ps \<and> Runtime ps = runtime prog
         \<and> (\<forall>rgn \<in> set (split CHR '','' (region prog)).
               (rgn, t, GetFunction (FunctionName ps))
                 \<in> set (issued (deploy aws rd dc (Inr buffer) prog t)))
         \<and> (\<forall>(rgn, t', c) \<in> set (issued (deploy aws rd dc (Inr buffer) prog t)).
               (\<forall>p'. c = CreateFunction p' \<longrightarrow> Runtime p' = runtime prog)
             \<and> (\<forall>conf. c = UpdateFunctionConfiguration conf \<longrightarrow> Runtime conf = runtime prog))
         \<and> (\<forall>err. console (deploy aws rd dc (Inr buffer) prog t) \<noteq> Thrown err))"
  proof (intro impI, elim conjE)
    assume a: "\<forall>f. configFile prog = Some f \<and> f \<noteq> [] \<longrightarrow> (\<exists>config. dc f = Inr config)"
      "\<forall>file. eventSourceFile prog = Some file \<and> file \<noteq> [] \<longrightarrow> (\<exists>doc. rd file = Inr doc)"
    show "\<exists>ps. params dc prog buffer = Inr ps \<and> Runtime ps = runtime prog
         \<and> (\<forall>rgn \<in> set (split CHR '','' (region prog)).
               (rgn, t, GetFunction (FunctionName ps))
                 \<in> set (issued (deploy aws rd dc (Inr buffer) prog t)))
         \<and> (\<forall>(rgn, t', c) \<in> set (issued (deploy aws rd dc (Inr buffer) prog t)).
               (\<forall>p'. c = CreateFunction p' \<longrightarrow> Runtime p' = runtime prog)
             \<and> (\<forall>conf. c = UpdateFunctionConfiguration conf \<longrightarrow> Runtime conf = runtime prog))
         \<and> (\<forall>err. console (deploy aws rd dc (Inr buffer) prog t) \<noteq> Thrown err)"
      by (rule deploy_forwards_runtime[OF a])
  qed
qed

theorem runtime_validation_witness:
  "runtime (example_program\<lparr> runtime := ''python2.7'', configFile := Some ''deploy.env'' \<rparr>)
     \<notin> set [''nodejs4.3'', ''nodejs6.10'']
   \<and> run (EventArray [''{}'', ''{}''])
         (example_program\<lparr> runtime := ''python2.7'', configFile := Some ''deploy.env'' \<rparr>)
       = [ConsoleError ''Runtime [python2.7] is not supported.'', ProcessExit 254]
   \<and> configFile (example_program\<lparr> runtime := ''python2.7'', configFile := Some ''deploy.env'' \<rparr>)
       = Some ''deploy.env''
   \<and> eventSourceFile (example_program\<lparr> runtime := ''python2.7'', configFile := Some ''deploy.env'' \<rparr>)
       = Some ''event_sources.json''
   \<and> example_readJsonSync ''event_sources.json'' = Inr (Structured (Some example_desired) None)
   \<and> split CHR '','' (region (example_program\<lparr> runtime := ''python2.7'',
                                                configFile := Some ''deploy.env'' \<rparr>))
       = [''us-east-1'', ''eu-west-1'']
   \<and> (\<exists>ps. params (\<lambda>_. Inr [(''KEY'', ''value'')])
               (example_program\<lparr> runtime := ''python2.7'', configFile := Some ''deploy.env'' \<rparr>) ''PK''
             = Inr ps
          \<and> Runtime ps = ''python2.7''
          \<and> (''us-east-1'', 0, GetFunction (FunctionName ps))
               \<in> set (issued (deploy example_aws example_readJsonSync (\<lambda>_. Inr [(''KEY'', ''value'')])
                     (Inr ''PK'')
                     (example_program\<lparr> runtime := ''python2.7'', configFile := Some ''deploy.env'' \<rparr>) 0))
          \<and> (''eu-west-1'', 0, GetFunction (FunctionName ps))
               \<in> set (issued (deploy example_aws example_readJsonSync (\<lambda>_. Inr [(''KEY'', ''value'')])
                     (Inr ''PK'')
                     (example_program\<lparr> runtime := ''python2.7'', configFile := Some ''deploy.env'' \<rparr>) 0)))"
proof -
  let ?prog = "example_program\<lparr> runtime := ''python2.7'', configFile := Some ''deploy.env'' \<rparr>"
  let ?dc = "\<lambda>_ :: string. Inr [(''KEY'', ''value'')] :: error + (string \<times> string) list"
  let ?run = "deploy example_aws example_readJsonSync ?dc (Inr ''PK'') ?prog 0"
  have r: "runtime ?prog \<notin> set [''nodejs4.3'', ''nodejs6.10'']" "runtime ?prog = ''python2.7''"
    by (simp_all add: example_program_def)
  have f: "configFile ?prog = Some ''deploy.env''"
    "eventSourceFile ?prog = Some ''event_sources.json''"
    "example_readJsonSync ''event_sources.json'' = Inr (Structured (Some example_desired) None)"
    by (simp_all add: example_program_def example_readJsonSync_def)
  have regions: "split CHR '','' (region ?prog) = [''us-east-1'', ''eu-west-1'']"
    by code_simp
  have h1: "\<forall>f. configFile ?prog = Some f \<and> f \<noteq> [] \<longrightarrow> (\<exists>config. ?dc f = Inr config)"
    by simp
  have h2: "\<forall>file. eventSourceFile ?prog = Some file \<and> file \<noteq> [] \<longrightarrow>
              (\<exists>doc. example_readJsonSync file = Inr doc)"
    using f(2,3) by auto
  note T = runtime_validation[of ?prog "EventArray [''{}'', ''{}'']" ?dc "''PK''"
      example_readJsonSync 0 example_aws]
  have "run (EventArray [''{}'', ''{}'']) ?prog
          = [ConsoleError (''Runtime ['' @ runtime ?prog @ ''] is not supported.''), ProcessExit 254]"
    using T[THEN conjunct1] r(1) by blast
  then have e: "run (EventArray [''{}'', ''{}'']) ?prog
       = [ConsoleError ''Runtime [python2.7] is not supported.'', ProcessExit 254]"
    by (simp add: r(2))
  from T[THEN conjunct2, THEN conjunct2, rule_format, OF conjI[OF h1 h2]]
  obtain ps where ps: "params ?dc ?prog ''PK'' = Inr ps" "Runtime ps = runtime ?prog"
    and probes: "\<forall>rgn \<in> set (split CHR '','' (region ?prog)).
                   (rgn, 0, GetFunction (FunctionName ps)) \<in> set (issued ?run)"
    by (elim exE conjE)
  have "(''us-east-1'', 0, GetFunction (FunctionName ps)) \<in> set (issued ?run)"
    "(''eu-west-1'', 0, GetFunction (FunctionName ps)) \<in> set (issued ?run)"
    using probes unfolding regions by simp_all
  then have d: "\<exists>ps. params ?dc ?prog ''PK'' = Inr ps \<and> Runtime ps = ''python2.7''
          \<and> (''us-east-1'', 0, GetFunction (FunctionName ps)) \<in> set (issued ?run)
          \<and> (''eu-west-1'', 0, GetFunction (FunctionName ps)) \<in> set (issued ?run)"
    using ps r(2) by auto
  show ?thesis using r(1) e f regions d by blast
qed

end
